theory Spec2Isabelle
  imports Complex_Main "HOL-Library.Option_ord" "HOL-Library.Multiset"
begin

section \<open>JavaScript values\<close>

text \<open>
  The server receives its inputs as JavaScript values: the parsed \<open>filters\<close> JSON of
  the report routes, request bodies, and the objects it serialises into responses.
  A finite number is a rational; \<open>JDate\<close> carries the time value of a \<open>Date\<close> in
  milliseconds, \<open>None\<close> for an Invalid Date; an object is the list of its own
  properties, each key once, in insertion order.
\<close>

datatype jsval =
    JUndefined
  | JNull
  | JBool bool
  | JNum rat
  | JStr string
  | JDate "int option"
  | JArr "jsval list"
  | JObj "(string \<times> jsval) list"

text \<open>ToBoolean, as \<open>if (v)\<close> and \<open>v || d\<close> apply it.\<close>

fun truthy :: "jsval \<Rightarrow> bool" where
  "truthy JUndefined = False"
| "truthy JNull = False"
| "truthy (JBool b) = b"
| "truthy (JNum n) = (n \<noteq> 0)"
| "truthy (JStr s) = (s \<noteq> [])"
| "truthy (JDate d) = True"
| "truthy (JArr xs) = True"
| "truthy (JObj kvs) = True"

text \<open>
  Property read \<open>v.k\<close> for the keys the server reads, on a value that is not
  \<open>null\<close> or \<open>undefined\<close>: an own property of an object, \<open>undefined\<close> otherwise.
\<close>

fun js_get :: "jsval \<Rightarrow> string \<Rightarrow> jsval" where
  "js_get (JObj kvs) k = (case map_of kvs k of None \<Rightarrow> JUndefined | Some v \<Rightarrow> v)"
| "js_get v k = JUndefined"



section \<open>Exceptions and the platform\<close>

datatype db_error =
    UniqueViolation string
  | ForeignKeyViolation string
  | NegativeOffset
  | InvalidParameter
  | BigintOutOfRange

datatype exn =
    ZodError
  | SyntaxError
  | RangeError
  | DbError db_error

text \<open>
  What the server calls and does not define itself: the \<open>Date\<close> constructor, the text
  the database driver sends for a bound parameter that is not a string, \<open>JSON.parse\<close>,
  \<open>parseInt\<close>, the database's LIKE (value, then pattern), bcrypt (the hash of a
  password at a cost with the salt drawn for the call; the comparison of a password
  with a hash), jsonwebtoken (\<open>sign\<close> of a payload under a secret with an
  \<open>expiresIn\<close>; \<open>verify\<close> of a token under a secret, \<open>None\<close> when it reports an
  error), the insert schemas that drizzle-zod derives from the tables (\<open>None\<close>
  when \<open>parse\<close> throws), and the environment variable \<open>JWT_SECRET\<close>. They are
  parameters of the model.
\<close>

record jwt_payload =
  jwt_id :: string
  jwt_username :: string
  jwt_role :: string

record insert_cbo =
  ic_codigo :: string
  ic_descricao :: string
  ic_status :: "bool option"

record insert_user =
  iu_username :: string
  iu_password :: string
  iu_email :: "string option"
  iu_firstName :: "string option"
  iu_lastName :: "string option"
  iu_role :: "string option"
  iu_active :: "bool option"

record platform =
  new_Date :: "jsval \<Rightarrow> int option"
  pg_text :: "jsval \<Rightarrow> string"
  JSON_parse :: "string \<Rightarrow> jsval option"
  parseInt :: "string \<Rightarrow> int option"
  sql_like :: "string \<Rightarrow> string \<Rightarrow> bool"
  bcrypt_hash :: "string \<Rightarrow> nat \<Rightarrow> string \<Rightarrow> string"
  bcrypt_compare :: "string \<Rightarrow> string \<Rightarrow> bool"
  jwt_sign :: "jwt_payload \<Rightarrow> string \<Rightarrow> string \<Rightarrow> string"
  jwt_verify :: "string \<Rightarrow> string \<Rightarrow> jwt_payload option"
  insertCboSchema_parse :: "jsval \<Rightarrow> insert_cbo option"
  insertUserSchema_parse :: "jsval \<Rightarrow> insert_user option"
  env_JWT_SECRET :: "string option"

section \<open>What the database accepts\<close>

text \<open>
  PostgreSQL refuses a parameter it cannot read, whatever the tables hold: a text
  that contains the character U+0000; a timestamp whose ISO text, as
  \<open>toISOString()\<close> writes it, has a year outside 0001 to 9999; a LIMIT or
  OFFSET outside \<open>bigint\<close>. JavaScript computes \<open>(page - 1) * limit\<close> exactly
  as long as the operands and the product stay within
  \<open>Number.MAX_SAFE_INTEGER\<close>.
\<close>

definition pg_text_ok :: "string \<Rightarrow> bool" where
  "pg_text_ok s \<longleftrightarrow> CHR 0x00 \<notin> set s"

definition pg_text_opt_ok :: "string option \<Rightarrow> bool" where
  "pg_text_opt_ok v = (case v of None \<Rightarrow> True | Some s \<Rightarrow> pg_text_ok s)"

definition pg_timestamp_ok :: "int \<Rightarrow> bool" where
  "pg_timestamp_ok t \<longleftrightarrow> - 62135596800000 \<le> t \<and> t \<le> 253402300799999"

definition pg_bigint_ok :: "int \<Rightarrow> bool" where
  "pg_bigint_ok n \<longleftrightarrow> - 9223372036854775808 \<le> n \<and> n \<le> 9223372036854775807"

definition MAX_SAFE_INTEGER :: int where
  "MAX_SAFE_INTEGER = 9007199254740991"

section \<open>Schema\<close>

text \<open>
  Timestamps are milliseconds since the epoch; a nullable column is an \<open>option\<close>;
  a decimal column is the string the driver returns. Column widths are not
  modelled: every string is taken to fit its column. A table holds only text
  the database accepted, so the id of a stored row contains no U+0000; lookups
  and deletes by id are modelled for such ids.
\<close>

record user_row =
  u_id :: string
  u_username :: string
  u_password :: string
  u_email :: "string option"
  u_firstName :: "string option"
  u_lastName :: "string option"
  u_role :: string
  u_active :: bool
  u_createdAt :: "int option"
  u_updatedAt :: "int option"

record cbo_row =
  cbo_id :: string
  cbo_codigo :: string
  cbo_descricao :: string
  cbo_status :: bool
  cbo_createdAt :: "int option"
  cbo_updatedAt :: "int option"

record prestador_row =
  prest_id :: string
  prest_codigo :: string
  prest_nomeRazaoSocial :: string
  prest_cnpjCpf :: string
  prest_tipo :: string
  prest_status :: bool
  prest_createdAt :: "int option"
  prest_updatedAt :: "int option"

record procedimento_row =
  proc_id :: string
  proc_codigo :: string
  proc_descricao :: string
  proc_valor :: string
  proc_complexidade :: string
  proc_status :: bool
  proc_createdAt :: "int option"
  proc_updatedAt :: "int option"

record srub_row =
  srub_id :: string
  srub_codigo :: string
  srub_descricao :: string
  srub_tipoFinanciamento :: string
  srub_status :: bool
  srub_createdAt :: "int option"
  srub_updatedAt :: "int option"

record consulta_prod_row =
  prd_id :: string
  prdDtcomp :: int
  prdDtreal :: int
  prdCbo :: "string option"
  prdPrest :: "string option"
  prdProc :: "string option"
  prdQtd :: int
  prdVlP :: string
  prdRub :: "string option"
  prdCidpri :: "string option"
  prd_createdAt :: "int option"
  prd_updatedAt :: "int option"

record audit_row =
  al_id :: string
  al_userId :: "string option"
  al_action :: string
  al_tableName :: string
  al_recordId :: "string option"
  al_oldValues :: "jsval option"
  al_newValues :: "jsval option"
  al_createdAt :: "int option"

record db =
  users :: "user_row list"
  cbo :: "cbo_row list"
  prestador :: "prestador_row list"
  procedimento :: "procedimento_row list"
  sRub :: "srub_row list"
  consultaProd :: "consulta_prod_row list"
  auditLog :: "audit_row list"

section \<open>The report query\<close>

text \<open>
  The conditions \<open>getConsultaProdData\<close> pushes: \<open>gte\<close> and \<open>lte\<close> on
  \<open>prdDtcomp\<close> against a \<open>Date\<close>, \<open>eq\<close> on \<open>prdPrest\<close> and on \<open>prdProc\<close>
  against the filter's value, and their \<open>and\<close>.
\<close>

datatype condition =
    GteDtcomp "int option"
  | LteDtcomp "int option"
  | EqPrest jsval
  | EqProc jsval
  | And "condition list"

definition whereConditions :: "platform \<Rightarrow> jsval \<Rightarrow> condition list" where
  "whereConditions pf filters =
     (if truthy filters then
        (if truthy (js_get filters ''dateFrom'')
         then [GteDtcomp (new_Date pf (js_get filters ''dateFrom''))] else []) @
        (if truthy (js_get filters ''dateTo'')
         then [LteDtcomp (new_Date pf (js_get filters ''dateTo''))] else []) @
        (if truthy (js_get filters ''prestador'')
         then [EqPrest (js_get filters ''prestador'')] else []) @
        (if truthy (js_get filters ''procedimento'')
         then [EqProc (js_get filters ''procedimento'')] else [])
      else [])"

text \<open>\<open>whereConditions.length > 0 ? and(...whereConditions) : undefined\<close>\<close>

definition whereCondition :: "platform \<Rightarrow> jsval \<Rightarrow> condition option" where
  "whereCondition pf filters =
     (let cs = whereConditions pf filters in if length cs > 0 then Some (And cs) else None)"

text \<open>
  The text bound for an \<open>eq\<close> parameter on a varchar column: a string goes as it
  is, any other value as the driver writes it.
\<close>

definition param_text :: "platform \<Rightarrow> jsval \<Rightarrow> string" where
  "param_text pf v = (case v of JStr s \<Rightarrow> s | _ \<Rightarrow> pg_text pf v)"

text \<open>
  The timestamp column encodes a bound \<open>Date\<close> with \<open>toISOString()\<close>, which throws
  a RangeError on an Invalid Date: a condition is encodable when no date in it is
  invalid.
\<close>

fun encodable :: "condition \<Rightarrow> bool" where
  "encodable (GteDtcomp d) = (d \<noteq> None)"
| "encodable (LteDtcomp d) = (d \<noteq> None)"
| "encodable (EqPrest v) = True"
| "encodable (EqProc v) = True"
| "encodable (And cs) = list_all encodable cs"

text \<open>
  What is sent is then read by the database: every date must be a timestamp it
  accepts and every text free of U+0000.
\<close>

fun accepted :: "platform \<Rightarrow> condition \<Rightarrow> bool" where
  "accepted pf (GteDtcomp d) = (case d of None \<Rightarrow> True | Some t \<Rightarrow> pg_timestamp_ok t)"
| "accepted pf (LteDtcomp d) = (case d of None \<Rightarrow> True | Some t \<Rightarrow> pg_timestamp_ok t)"
| "accepted pf (EqPrest v) = pg_text_ok (param_text pf v)"
| "accepted pf (EqProc v) = pg_text_ok (param_text pf v)"
| "accepted pf (And cs) = list_all (accepted pf) cs"

text \<open>
  SQL evaluation of a condition on a fact row. A comparison with a NULL column is
  not true. The branches for an invalid date are never reached: the query fails
  before it is sent.
\<close>

fun holds :: "platform \<Rightarrow> condition \<Rightarrow> consulta_prod_row \<Rightarrow> bool" where
  "holds pf (GteDtcomp d) r = (case d of None \<Rightarrow> False | Some t \<Rightarrow> prdDtcomp r \<ge> t)"
| "holds pf (LteDtcomp d) r = (case d of None \<Rightarrow> False | Some t \<Rightarrow> prdDtcomp r \<le> t)"
| "holds pf (EqPrest v) r = (prdPrest r = Some (param_text pf v))"
| "holds pf (EqProc v) r = (prdProc r = Some (param_text pf v))"
| "holds pf (And cs) r = list_all (\<lambda>c. holds pf c r) cs"

text \<open>\<open>.where(c)\<close>: \<open>undefined\<close> keeps every row.\<close>

definition matches :: "platform \<Rightarrow> condition option \<Rightarrow> consulta_prod_row \<Rightarrow> bool" where
  "matches pf w r = (case w of None \<Rightarrow> True | Some c \<Rightarrow> holds pf c r)"

section \<open>Query building blocks\<close>

text \<open>
  \<open>.leftJoin(t, on)\<close>: every left row is kept; it is paired with each right row
  the \<open>on\<close> condition accepts, and with NULL when there is none.
\<close>

definition leftJoin :: "'l list \<Rightarrow> 'r list \<Rightarrow> ('l \<Rightarrow> 'r \<Rightarrow> bool) \<Rightarrow> ('l \<times> 'r option) list" where
  "leftJoin ls rs on =
     concat (map (\<lambda>l. case filter (on l) rs of
                          [] \<Rightarrow> [(l, None)]
                        | ms \<Rightarrow> map (\<lambda>m. (l, Some m)) ms) ls)"

text \<open>
  \<open>eq(fk, pk)\<close> between a nullable foreign key and a key column: NULL equals
  nothing.
\<close>

definition fk_eq :: "string option \<Rightarrow> string \<Rightarrow> bool" where
  "fk_eq fk pk = (fk = Some pk)"

text \<open>
  \<open>.orderBy(desc(col))\<close> on a NOT NULL timestamp, and on a nullable one, where
  descending order puts NULL first. The database leaves the order of rows with
  equal keys open; the model keeps them in table order.
\<close>

definition orderBy_desc :: "('a \<Rightarrow> int) \<Rightarrow> 'a list \<Rightarrow> 'a list" where
  "orderBy_desc col xs = sort_key (\<lambda>x. - col x) xs"


text \<open>
  \<open>.limit(n).offset(m)\<close>. The query builder writes a LIMIT clause for a limit
  of at least 0 and none for a negative one, and an OFFSET clause for an offset
  other than 0; the database rejects a negative OFFSET and a LIMIT or OFFSET
  outside \<open>bigint\<close>.
\<close>

definition limit_offset :: "int \<Rightarrow> int \<Rightarrow> 'a list \<Rightarrow> exn + 'a list" where
  "limit_offset n m xs =
     (if m < 0 then Inl (DbError NegativeOffset)
      else if \<not> pg_bigint_ok m \<or> (0 \<le> n \<and> \<not> pg_bigint_ok n)
      then Inl (DbError BigintOutOfRange)
      else if 0 \<le> n then Inr (take (nat n) (drop (nat m) xs))
      else Inr (drop (nat m) xs))"

section \<open>getConsultaProdData\<close>

text \<open>The nested objects of a report row; each is \<open>null\<close> when its join found no row.\<close>

record cbo_ref =
  cr_id :: string
  cr_codigo :: string
  cr_descricao :: string

record prestador_ref =
  pr_id :: string
  pr_codigo :: string
  pr_nomeRazaoSocial :: string

record procedimento_ref =
  pc_id :: string
  pc_codigo :: string
  pc_descricao :: string

record srub_ref =
  sr_id :: string
  sr_codigo :: string
  sr_descricao :: string

record report_row =
  rr_id :: string
  rr_prdDtcomp :: int
  rr_prdDtreal :: int
  rr_prdQtd :: int
  rr_prdVlP :: string
  rr_prdCidpri :: "string option"
  rr_cbo :: "cbo_ref option"
  rr_prestador :: "prestador_ref option"
  rr_procedimento :: "procedimento_ref option"
  rr_sRub :: "srub_ref option"

type_synonym joined_row =
  "(((consulta_prod_row \<times> cbo_row option) \<times> prestador_row option)
      \<times> procedimento_row option) \<times> srub_row option"

text \<open>The four left joins, in the order of the source.\<close>

definition joined :: "db \<Rightarrow> joined_row list" where
  "joined d =
     leftJoin
       (leftJoin
         (leftJoin
           (leftJoin (consultaProd d) (cbo d) (\<lambda>p c. fk_eq (prdCbo p) (cbo_id c)))
           (prestador d) (\<lambda>j q. fk_eq (prdPrest (fst j)) (prest_id q)))
         (procedimento d) (\<lambda>j q. fk_eq (prdProc (fst (fst j))) (proc_id q)))
       (sRub d) (\<lambda>j s. fk_eq (prdRub (fst (fst (fst j)))) (srub_id s))"

definition fact :: "joined_row \<Rightarrow> consulta_prod_row" where
  "fact j = fst (fst (fst (fst j)))"

text \<open>The selection: the fact columns and one nested object for each joined table.\<close>

definition cbo_fields :: "cbo_row \<Rightarrow> cbo_ref" where
  "cbo_fields c = \<lparr> cr_id = cbo_id c, cr_codigo = cbo_codigo c, cr_descricao = cbo_descricao c \<rparr>"

definition prestador_fields :: "prestador_row \<Rightarrow> prestador_ref" where
  "prestador_fields q =
     \<lparr> pr_id = prest_id q, pr_codigo = prest_codigo q,
       pr_nomeRazaoSocial = prest_nomeRazaoSocial q \<rparr>"

definition procedimento_fields :: "procedimento_row \<Rightarrow> procedimento_ref" where
  "procedimento_fields q =
     \<lparr> pc_id = proc_id q, pc_codigo = proc_codigo q, pc_descricao = proc_descricao q \<rparr>"

definition srub_fields :: "srub_row \<Rightarrow> srub_ref" where
  "srub_fields s =
     \<lparr> sr_id = srub_id s, sr_codigo = srub_codigo s, sr_descricao = srub_descricao s \<rparr>"

definition select_report :: "joined_row \<Rightarrow> report_row" where
  "select_report j =
     (case j of ((((p, c), q), pc), s) \<Rightarrow>
        \<lparr> rr_id = prd_id p,
          rr_prdDtcomp = prdDtcomp p,
          rr_prdDtreal = prdDtreal p,
          rr_prdQtd = prdQtd p,
          rr_prdVlP = prdVlP p,
          rr_prdCidpri = prdCidpri p,
          rr_cbo = map_option cbo_fields c,
          rr_prestador = map_option prestador_fields q,
          rr_procedimento = map_option procedimento_fields pc,
          rr_sRub = map_option srub_fields s \<rparr>)"

text \<open>
  The data query up to \<open>.orderBy\<close>: join, filter on the fact columns, select,
  order by \<open>prdDtcomp\<close> descending.
\<close>

definition report_rows :: "platform \<Rightarrow> db \<Rightarrow> condition option \<Rightarrow> report_row list" where
  "report_rows pf d w =
     orderBy_desc rr_prdDtcomp
       (map select_report (filter (\<lambda>j. matches pf w (fact j)) (joined d)))"

text \<open>The count query: the fact table alone under the same condition.\<close>

definition count_rows :: "platform \<Rightarrow> db \<Rightarrow> condition option \<Rightarrow> nat" where
  "count_rows pf d w = length (filter (matches pf w) (consultaProd d))"

record report_page =
  data :: "report_row list"
  total :: nat

definition getConsultaProdData ::
  "platform \<Rightarrow> db \<Rightarrow> jsval \<Rightarrow> int \<Rightarrow> int \<Rightarrow> exn + report_page" where
  "getConsultaProdData pf d filters page limit =
     (let offset = (page - 1) * limit;
          w = whereCondition pf filters
      in if \<not> (case w of None \<Rightarrow> True | Some c \<Rightarrow> encodable c) then Inl RangeError
         else if \<not> (case w of None \<Rightarrow> True | Some c \<Rightarrow> accepted pf c)
         then Inl (DbError InvalidParameter)
         else case limit_offset limit offset (report_rows pf d w) of
                Inl e \<Rightarrow> Inl e
              | Inr rows \<Rightarrow> Inr \<lparr> data = rows, total = count_rows pf d w \<rparr>)"

text \<open>
  With a key column on the right, a left join finds at most one partner: the row
  whose key is the foreign key.
\<close>

definition lookup_by :: "('r \<Rightarrow> string) \<Rightarrow> 'r list \<Rightarrow> string option \<Rightarrow> 'r option" where
  "lookup_by key rs fk = (case fk of None \<Rightarrow> None | Some k \<Rightarrow> find (\<lambda>r. key r = k) rs)"

definition join_one :: "db \<Rightarrow> consulta_prod_row \<Rightarrow> joined_row" where
  "join_one d p =
     ((((p, lookup_by cbo_id (cbo d) (prdCbo p)),
        lookup_by prest_id (prestador d) (prdPrest p)),
       lookup_by proc_id (procedimento d) (prdProc p)),
      lookup_by srub_id (sRub d) (prdRub p))"

text \<open>The primary keys of the four reference tables.\<close>

definition reference_keys :: "db \<Rightarrow> bool" where
  "reference_keys d \<longleftrightarrow>
     distinct (map cbo_id (cbo d)) \<and> distinct (map prest_id (prestador d)) \<and>
     distinct (map proc_id (procedimento d)) \<and> distinct (map srub_id (sRub d))"

text \<open>
  The report row of a production record, written out: its own columns, and for
  each foreign key the fields of the row it names, \<open>null\<close> when it is NULL or
  names none.
\<close>

definition report_of :: "db \<Rightarrow> consulta_prod_row \<Rightarrow> report_row" where
  "report_of d r =
     \<lparr> rr_id = prd_id r,
       rr_prdDtcomp = prdDtcomp r,
       rr_prdDtreal = prdDtreal r,
       rr_prdQtd = prdQtd r,
       rr_prdVlP = prdVlP r,
       rr_prdCidpri = prdCidpri r,
       rr_cbo = (case prdCbo r of
                   None \<Rightarrow> None
                 | Some k \<Rightarrow> map_option cbo_fields (find (\<lambda>c. cbo_id c = k) (cbo d))),
       rr_prestador = (case prdPrest r of
                   None \<Rightarrow> None
                 | Some k \<Rightarrow> map_option prestador_fields
                              (find (\<lambda>q. prest_id q = k) (prestador d))),
       rr_procedimento = (case prdProc r of
                   None \<Rightarrow> None
                 | Some k \<Rightarrow> map_option procedimento_fields
                              (find (\<lambda>q. proc_id q = k) (procedimento d))),
       rr_sRub = (case prdRub r of
                   None \<Rightarrow> None
                 | Some k \<Rightarrow> map_option srub_fields (find (\<lambda>x. srub_id x = k) (sRub d))) \<rparr>"

definition recognized_keys :: "string list" where
  "recognized_keys = [''dateFrom'', ''dateTo'', ''prestador'', ''procedimento'']"

section \<open>Requests, responses, middleware\<close>

datatype body =
    Message string
  | Json jsval
  | ReportBody report_page
  | NoBody

record response =
  status :: nat
  body :: body

record request =
  authorization :: "string option"
  param_id :: string
  query_page :: "string option"
  query_limit :: "string option"
  query_search :: "string option"
  query_filters :: "string option"
  req_body :: jsval

text \<open>\<open>process.env.JWT_SECRET || "your-secret-key"\<close>\<close>

definition JWT_SECRET :: "platform \<Rightarrow> string" where
  "JWT_SECRET pf =
     (case env_JWT_SECRET pf of
        None \<Rightarrow> ''your-secret-key''
      | Some s \<Rightarrow> if s \<noteq> [] then s else ''your-secret-key'')"

text \<open>\<open>s.split(c)\<close> for a one-character separator.\<close>

fun split_on :: "char \<Rightarrow> string \<Rightarrow> string list" where
  "split_on c [] = [[]]"
| "split_on c (x # xs) =
     (if x = c then [] # split_on c xs
      else case split_on c xs of
             [] \<Rightarrow> [[x]]
           | w # ws \<Rightarrow> (x # w) # ws)"

text \<open>\<open>authHeader && authHeader.split(' ')[1]\<close>, then \<open>!token\<close>: the usable token, if any.\<close>

definition bearer_token :: "string option \<Rightarrow> string option" where
  "bearer_token authHeader =
     (case authHeader of
        None \<Rightarrow> None
      | Some h \<Rightarrow>
          if h = [] then None
          else case split_on CHR '' '' h of
                 a # t # rest \<Rightarrow> if t = [] then None else Some t
               | _ \<Rightarrow> None)"

definition authenticateToken :: "platform \<Rightarrow> request \<Rightarrow> response + jwt_payload" where
  "authenticateToken pf req =
     (case bearer_token (authorization req) of
        None \<Rightarrow> Inl \<lparr> status = 401, body = Message ''Access token required'' \<rparr>
      | Some token \<Rightarrow>
          (case jwt_verify pf token (JWT_SECRET pf) of
             None \<Rightarrow> Inl \<lparr> status = 403, body = Message ''Invalid token'' \<rparr>
           | Some user \<Rightarrow> Inr user))"

definition requireAdmin :: "jwt_payload \<Rightarrow> response option" where
  "requireAdmin user =
     (if jwt_role user \<noteq> ''admin''
      then Some \<lparr> status = 403, body = Message ''Admin access required'' \<rparr>
      else None)"

text \<open>\<open>parseInt(q) || dflt\<close>: NaN and 0 give the default.\<close>

definition int_or :: "platform \<Rightarrow> string option \<Rightarrow> int \<Rightarrow> int" where
  "int_or pf q dflt =
     (case q of
        None \<Rightarrow> dflt
      | Some s \<Rightarrow> (case parseInt pf s of
                    None \<Rightarrow> dflt
                  | Some n \<Rightarrow> if n = 0 then dflt else n))"

section \<open>GET /api/reports/data\<close>

definition internal_error :: response where
  "internal_error = \<lparr> status = 500, body = Message ''Internal server error'' \<rparr>"

text \<open>\<open>req.query.filters ? JSON.parse(req.query.filters) : {}\<close>\<close>

definition query_filters_value :: "platform \<Rightarrow> string option \<Rightarrow> exn + jsval" where
  "query_filters_value pf q =
     (case q of
        None \<Rightarrow> Inr (JObj [])
      | Some s \<Rightarrow>
          if s = [] then Inr (JObj [])
          else case JSON_parse pf s of None \<Rightarrow> Inl SyntaxError | Some v \<Rightarrow> Inr v)"

definition reports_data_handler :: "platform \<Rightarrow> db \<Rightarrow> request \<Rightarrow> response" where
  "reports_data_handler pf d req =
     (let page = int_or pf (query_page req) 1;
          limit = int_or pf (query_limit req) 50
      in case query_filters_value pf (query_filters req) of
           Inl e \<Rightarrow> internal_error
         | Inr filters \<Rightarrow>
             (case getConsultaProdData pf d filters page limit of
                Inl e \<Rightarrow> internal_error
              | Inr result \<Rightarrow> \<lparr> status = 200, body = ReportBody result \<rparr>))"

definition get_reports_data :: "platform \<Rightarrow> db \<Rightarrow> request \<Rightarrow> response" where
  "get_reports_data pf d req =
     (case authenticateToken pf req of
        Inl denied \<Rightarrow> denied
      | Inr user \<Rightarrow> reports_data_handler pf d req)"

text \<open>
  The spec's ValidationError naming a field, as a response: status 400 with a
  message in which the field's name occurs.
\<close>

fun occurs_in :: "string \<Rightarrow> string \<Rightarrow> bool" where
  "occurs_in w [] = (w = [])"
| "occurs_in w (x # xs) = (w = take (length w) (x # xs) \<or> occurs_in w xs)"

definition spec_ValidationError_naming :: "string \<Rightarrow> response \<Rightarrow> bool" where
  "spec_ValidationError_naming field r \<longleftrightarrow>
     status r = 400 \<and> (case body r of Message m \<Rightarrow> occurs_in field m | _ \<Rightarrow> False)"

section \<open>Storage: inserts, updates and deletes\<close>

text \<open>
  The database generates \<open>id\<close> (\<open>gen_random_uuid()\<close>) and the timestamps
  (\<open>now()\<close>) of an inserted row; the model takes them as inputs of the call.
  It enforces the constraints the schema declares: primary keys, the unique
  columns, and the foreign keys (a referenced row cannot be deleted).
\<close>

record generated =
  gen_id :: string
  gen_now :: int

definition nullable :: "string option \<Rightarrow> jsval" where
  "nullable v = (case v of None \<Rightarrow> JNull | Some s \<Rightarrow> JStr s)"

definition timestamp_value :: "int option \<Rightarrow> jsval" where
  "timestamp_value v = (case v of None \<Rightarrow> JNull | Some t \<Rightarrow> JDate (Some t))"



definition prestador_obj :: "prestador_row \<Rightarrow> (string \<times> jsval) list" where
  "prestador_obj q =
     [(''id'', JStr (prest_id q)), (''codigo'', JStr (prest_codigo q)),
      (''nomeRazaoSocial'', JStr (prest_nomeRazaoSocial q)),
      (''cnpjCpf'', JStr (prest_cnpjCpf q)), (''tipo'', JStr (prest_tipo q)),
      (''status'', JBool (prest_status q)),
      (''createdAt'', timestamp_value (prest_createdAt q)),
      (''updatedAt'', timestamp_value (prest_updatedAt q))]"

subsection \<open>Users\<close>

definition getUser :: "db \<Rightarrow> string \<Rightarrow> user_row option" where
  "getUser d uid = find (\<lambda>u. u_id u = uid) (users d)"

text \<open>The username is bound as a text parameter; the query throws when it is refused.\<close>

definition getUserByUsername :: "db \<Rightarrow> string \<Rightarrow> exn + user_row option" where
  "getUserByUsername d username =
     (if \<not> pg_text_ok username then Inl (DbError InvalidParameter)
      else Inr (find (\<lambda>u. u_username u = username) (users d)))"

text \<open>The text columns of a row to be written.\<close>

definition user_texts_ok :: "user_row \<Rightarrow> bool" where
  "user_texts_ok u \<longleftrightarrow>
     pg_text_ok (u_username u) \<and> pg_text_ok (u_password u) \<and> pg_text_opt_ok (u_email u) \<and>
     pg_text_opt_ok (u_firstName u) \<and> pg_text_opt_ok (u_lastName u) \<and> pg_text_ok (u_role u)"

text \<open>The unique columns of \<open>users\<close>: a NULL email collides with nothing.\<close>

definition user_conflict :: "user_row \<Rightarrow> user_row \<Rightarrow> bool" where
  "user_conflict a b \<longleftrightarrow>
     u_username a = u_username b \<or> (u_email a \<noteq> None \<and> u_email a = u_email b)"

definition createUser ::
  "platform \<Rightarrow> db \<Rightarrow> insert_user \<Rightarrow> string \<Rightarrow> generated \<Rightarrow> exn + (db \<times> user_row)" where
  "createUser pf d userData salt g =
     (let hashedPassword = bcrypt_hash pf (iu_password userData) 10 salt;
          user = \<lparr> u_id = gen_id g,
                   u_username = iu_username userData,
                   u_password = hashedPassword,
                   u_email = iu_email userData,
                   u_firstName = iu_firstName userData,
                   u_lastName = iu_lastName userData,
                   u_role = (case iu_role userData of None \<Rightarrow> ''operator'' | Some r \<Rightarrow> r),
                   u_active = (case iu_active userData of None \<Rightarrow> True | Some a \<Rightarrow> a),
                   u_createdAt = Some (gen_now g),
                   u_updatedAt = Some (gen_now g) \<rparr>
      in if \<not> user_texts_ok user then Inl (DbError InvalidParameter)
         else if list_ex (\<lambda>u. u_id u = u_id user) (users d)
         then Inl (DbError (UniqueViolation ''users_pkey''))
         else if list_ex (user_conflict user) (users d)
         then Inl (DbError (UniqueViolation ''users_unique''))
         else Inr (d\<lparr> users := users d @ [user] \<rparr>, user))"

text \<open>
  \<open>Partial<InsertUser>\<close>: an absent key is \<open>None\<close>; for a nullable column
  \<open>Some None\<close> is an explicit \<open>null\<close>.
\<close>

record partial_user =
  pu_username :: "string option"
  pu_password :: "string option"
  pu_email :: "string option option"
  pu_firstName :: "string option option"
  pu_lastName :: "string option option"
  pu_role :: "string option"
  pu_active :: "bool option"

text \<open>The texts an update binds.\<close>

definition update_texts_ok :: "partial_user \<Rightarrow> bool" where
  "update_texts_ok upd \<longleftrightarrow>
     pg_text_opt_ok (pu_username upd) \<and> pg_text_opt_ok (pu_password upd) \<and>
     (case pu_email upd of None \<Rightarrow> True | Some v \<Rightarrow> pg_text_opt_ok v) \<and>
     (case pu_firstName upd of None \<Rightarrow> True | Some v \<Rightarrow> pg_text_opt_ok v) \<and>
     (case pu_lastName upd of None \<Rightarrow> True | Some v \<Rightarrow> pg_text_opt_ok v) \<and>
     pg_text_opt_ok (pu_role upd)"

text \<open>\<open>.set({...})\<close>: a key that is absent leaves its column as it is.\<close>

definition set_user :: "partial_user \<Rightarrow> int \<Rightarrow> user_row \<Rightarrow> user_row" where
  "set_user upd now u =
     u\<lparr> u_username := (case pu_username upd of None \<Rightarrow> u_username u | Some v \<Rightarrow> v),
        u_password := (case pu_password upd of None \<Rightarrow> u_password u | Some v \<Rightarrow> v),
        u_email := (case pu_email upd of None \<Rightarrow> u_email u | Some v \<Rightarrow> v),
        u_firstName := (case pu_firstName upd of None \<Rightarrow> u_firstName u | Some v \<Rightarrow> v),
        u_lastName := (case pu_lastName upd of None \<Rightarrow> u_lastName u | Some v \<Rightarrow> v),
        u_role := (case pu_role upd of None \<Rightarrow> u_role u | Some v \<Rightarrow> v),
        u_active := (case pu_active upd of None \<Rightarrow> u_active u | Some v \<Rightarrow> v),
        u_updatedAt := Some now \<rparr>"

text \<open>
  \<open>if (updateData.password)\<close> hashes a password that is present and not the
  empty string; the update then writes every key of \<open>updateData\<close>.
\<close>

definition updateUser ::
  "platform \<Rightarrow> db \<Rightarrow> string \<Rightarrow> partial_user \<Rightarrow> string \<Rightarrow> int \<Rightarrow> exn + (db \<times> user_row option)" where
  "updateUser pf d uid userData salt now =
     (let updateData =
            (case pu_password userData of
               None \<Rightarrow> userData
             | Some pw \<Rightarrow>
                 if pw \<noteq> [] then userData\<lparr> pu_password := Some (bcrypt_hash pf pw 10 salt) \<rparr>
                 else userData);
          updated = map (\<lambda>u. if u_id u = uid then set_user updateData now u else u) (users d)
      in if \<not> update_texts_ok updateData then Inl (DbError InvalidParameter)
         else if list_ex (\<lambda>u. u_id u = uid \<and>
                       list_ex (\<lambda>v. u_id v \<noteq> uid \<and> user_conflict (set_user updateData now u) v)
                         (users d)) (users d)
         then Inl (DbError (UniqueViolation ''users_unique''))
         else Inr (d\<lparr> users := updated \<rparr>, find (\<lambda>u. u_id u = uid) updated))"

definition deleteUser :: "db \<Rightarrow> string \<Rightarrow> exn + (db \<times> bool)" where
  "deleteUser d uid =
     (let rowCount = length (filter (\<lambda>u. u_id u = uid) (users d))
      in if rowCount > 0 \<and> list_ex (\<lambda>a. al_userId a = Some uid) (auditLog d)
         then Inl (DbError (ForeignKeyViolation ''audit_log_user_id''))
         else Inr (d\<lparr> users := filter (\<lambda>u. u_id u \<noteq> uid) (users d) \<rparr>, rowCount > 0))"

subsection \<open>CBO\<close>




definition getCBO :: "db \<Rightarrow> string \<Rightarrow> cbo_row option" where
  "getCBO d cid = find (\<lambda>c. cbo_id c = cid) (cbo d)"


subsection \<open>Prestador\<close>

definition getPrestador :: "db \<Rightarrow> string \<Rightarrow> prestador_row option" where
  "getPrestador d pid = find (\<lambda>q. prest_id q = pid) (prestador d)"

definition deletePrestador :: "db \<Rightarrow> string \<Rightarrow> exn + (db \<times> bool)" where
  "deletePrestador d pid =
     (let rowCount = length (filter (\<lambda>q. prest_id q = pid) (prestador d))
      in if rowCount > 0 \<and> list_ex (\<lambda>p. prdPrest p = Some pid) (consultaProd d)
         then Inl (DbError (ForeignKeyViolation ''consulta_prod_prd_prest''))
         else Inr (d\<lparr> prestador := filter (\<lambda>q. prest_id q \<noteq> pid) (prestador d) \<rparr>,
                   rowCount > 0))"

subsection \<open>Audit log\<close>

record insert_audit =
  ia_userId :: "string option"
  ia_action :: string
  ia_tableName :: string
  ia_recordId :: "string option"
  ia_oldValues :: "jsval option"
  ia_newValues :: "jsval option"

definition createAuditLog :: "db \<Rightarrow> insert_audit \<Rightarrow> generated \<Rightarrow> exn + (db \<times> audit_row)" where
  "createAuditLog d auditLogData g =
     (let result = \<lparr> al_id = gen_id g,
                     al_userId = ia_userId auditLogData,
                     al_action = ia_action auditLogData,
                     al_tableName = ia_tableName auditLogData,
                     al_recordId = ia_recordId auditLogData,
                     al_oldValues = ia_oldValues auditLogData,
                     al_newValues = ia_newValues auditLogData,
                     al_createdAt = Some (gen_now g) \<rparr>
      in if list_ex (\<lambda>a. al_id a = al_id result) (auditLog d)
         then Inl (DbError (UniqueViolation ''audit_log_pkey''))
         else if (case al_userId result of
                    None \<Rightarrow> False
                  | Some uid \<Rightarrow> \<not> list_ex (\<lambda>u. u_id u = uid) (users d))
         then Inl (DbError (ForeignKeyViolation ''audit_log_user_id''))
         else Inr (d\<lparr> auditLog := auditLog d @ [result] \<rparr>, result))"

section \<open>Routes\<close>

text \<open>
  A handler runs in a \<open>try\<close> block; the writes it made before an exception stay
  (there is no transaction), so a route returns the database it leaves and its
  response.
\<close>

definition invalid_request :: response where
  "invalid_request = \<lparr> status = 400, body = Message ''Invalid request data'' \<rparr>"

definition invalid_credentials :: response where
  "invalid_credentials = \<lparr> status = 401, body = Message ''Invalid credentials'' \<rparr>"

subsection \<open>POST /api/auth/login\<close>

text \<open>
  \<open>loginSchema\<close>: an object whose \<open>username\<close> and \<open>password\<close> are strings of
  at least one character.
\<close>

definition loginSchema_parse :: "jsval \<Rightarrow> (string \<times> string) option" where
  "loginSchema_parse b =
     (case b of
        JObj kvs \<Rightarrow>
          (case js_get b ''username'' of
             JStr username \<Rightarrow>
               (case js_get b ''password'' of
                  JStr password \<Rightarrow>
                    if length username \<ge> 1 \<and> length password \<ge> 1
                    then Some (username, password) else None
                | _ \<Rightarrow> None)
           | _ \<Rightarrow> None)
      | _ \<Rightarrow> None)"

definition login_token :: "platform \<Rightarrow> user_row \<Rightarrow> string" where
  "login_token pf user =
     jwt_sign pf \<lparr> jwt_id = u_id user, jwt_username = u_username user, jwt_role = u_role user \<rparr>
       (JWT_SECRET pf) ''24h''"

definition login_body :: "platform \<Rightarrow> user_row \<Rightarrow> jsval" where
  "login_body pf user =
     JObj [(''token'', JStr (login_token pf user)),
           (''user'', JObj [(''id'', JStr (u_id user)),
                            (''username'', JStr (u_username user)),
                            (''email'', nullable (u_email user)),
                            (''firstName'', nullable (u_firstName user)),
                            (''lastName'', nullable (u_lastName user)),
                            (''role'', JStr (u_role user))])]"

definition post_auth_login :: "platform \<Rightarrow> db \<Rightarrow> request \<Rightarrow> response" where
  "post_auth_login pf d req =
     (case loginSchema_parse (req_body req) of
        None \<Rightarrow> invalid_request
      | Some (username, password) \<Rightarrow>
          (case getUserByUsername d username of
             Inl e \<Rightarrow> invalid_request
           | Inr None \<Rightarrow> invalid_credentials
           | Inr (Some user) \<Rightarrow>
               if \<not> u_active user then invalid_credentials
               else if \<not> bcrypt_compare pf password (u_password user) then invalid_credentials
               else \<lparr> status = 200, body = Json (login_body pf user) \<rparr>))"

text \<open>The token a login response carries, if any.\<close>

definition issued_token :: "response \<Rightarrow> string option" where
  "issued_token r =
     (case body r of
        Json b \<Rightarrow> (case js_get b ''token'' of JStr t \<Rightarrow> Some t | _ \<Rightarrow> None)
      | _ \<Rightarrow> None)"

subsection \<open>POST /api/cbo\<close>


subsection \<open>DELETE /api/prestador/:id\<close>

definition prestador_not_found :: response where
  "prestador_not_found = \<lparr> status = 404, body = Message ''Prestador not found'' \<rparr>"

definition delete_prestador :: "platform \<Rightarrow> db \<Rightarrow> request \<Rightarrow> generated \<Rightarrow> db \<times> response" where
  "delete_prestador pf d req g =
     (case authenticateToken pf req of
        Inl denied \<Rightarrow> (d, denied)
      | Inr user \<Rightarrow>
          (let oldPrestador = getPrestador d (param_id req)
           in case deletePrestador d (param_id req) of
                Inl e \<Rightarrow> (d, internal_error)
              | Inr (d1, success) \<Rightarrow>
                  if \<not> success then (d1, prestador_not_found)
                  else (case createAuditLog d1
                               \<lparr> ia_userId = Some (jwt_id user), ia_action = ''delete'',
                                 ia_tableName = ''prestador'',
                                 ia_recordId = Some (param_id req),
                                 ia_oldValues = map_option (\<lambda>q. JObj (prestador_obj q)) oldPrestador,
                                 ia_newValues = None \<rparr> g of
                          Inl e \<Rightarrow> (d1, internal_error)
                        | Inr (d2, logged) \<Rightarrow> (d2, \<lparr> status = 204, body = NoBody \<rparr>))))"

subsection \<open>POST /api/users\<close>




section \<open>Test fixtures\<close>

text \<open>
  A small platform and database on which the theorems below are instantiated:
  a \<open>Date\<close> that reads three ISO dates, a JSON parser that reads two documents,
  toy bcrypt and jsonwebtoken functions, and tables with one referenced and one
  unreferenced provider and production records with and without occupation. A
  second database adds a production record whose financing source names no row.
\<close>

definition garbage_filters_query :: string where
  "garbage_filters_query =
     ''{'' @ [CHR 0x22] @ ''dateFrom'' @ [CHR 0x22] @ '':'' @ [CHR 0x22] @ ''garbage'' @ [CHR 0x22] @ ''}''"

definition test_platform :: platform where
  "test_platform =
     \<lparr> new_Date = (\<lambda>v. case v of
                          JStr s \<Rightarrow> if s = ''2024-01-01'' then Some 1704067200000
                                    else if s = ''2024-06-30'' then Some 1719705600000
                                    else if s = ''0000-01-01'' then Some (- 62167219200000)
                                    else None
                        | _ \<Rightarrow> None),
       pg_text = (\<lambda>v. []),
       JSON_parse = (\<lambda>s. if s = ''{}'' then Some (JObj [])
                          else if s = garbage_filters_query
                          then Some (JObj [(''dateFrom'', JStr ''garbage'')])
                          else None),
       parseInt = (\<lambda>s. if s = ''1'' then Some 1 else if s = ''2'' then Some 2
                        else if s = ''10'' then Some 10 else None),
       sql_like = (\<lambda>v p. False),
       bcrypt_hash = (\<lambda>pw cost salt. ''$2b$10$'' @ salt @ pw),
       bcrypt_compare = (\<lambda>pw h. take 7 h = ''$2b$10$'' \<and> drop 9 h = pw),
       jwt_sign = (\<lambda>p secret e. ''jwt:'' @ jwt_username p),
       jwt_verify = (\<lambda>t secret.
                       if t = ''jwt:admin''
                       then Some \<lparr> jwt_id = ''u1'', jwt_username = ''admin'', jwt_role = ''admin'' \<rparr>
                       else if t = ''jwt:maria''
                       then Some \<lparr> jwt_id = ''u2'', jwt_username = ''maria'', jwt_role = ''operator'' \<rparr>
                       else None),
       insertCboSchema_parse =
         (\<lambda>b. case js_get b ''codigo'' of
                 JStr c \<Rightarrow> (case js_get b ''descricao'' of
                              JStr t \<Rightarrow> Some \<lparr> ic_codigo = c, ic_descricao = t, ic_status = None \<rparr>
                            | _ \<Rightarrow> None)
               | _ \<Rightarrow> None),
       insertUserSchema_parse =
         (\<lambda>b. case js_get b ''username'' of
                 JStr n \<Rightarrow> (case js_get b ''password'' of
                              JStr pw \<Rightarrow> Some \<lparr> iu_username = n, iu_password = pw, iu_email = None,
                                                iu_firstName = None, iu_lastName = None,
                                                iu_role = None, iu_active = None \<rparr>
                            | _ \<Rightarrow> None)
               | _ \<Rightarrow> None),
       env_JWT_SECRET = None \<rparr>"

definition test_admin :: user_row where
  "test_admin =
     \<lparr> u_id = ''u1'', u_username = ''admin'', u_password = ''$2b$10$s1admin123'',
       u_email = Some ''admin@consultaprod.com'', u_firstName = Some ''Admin'',
       u_lastName = Some ''Sistema'', u_role = ''admin'', u_active = True,
       u_createdAt = Some 1700000000000, u_updatedAt = Some 1700000000000 \<rparr>"

definition test_operator :: user_row where
  "test_operator =
     \<lparr> u_id = ''u2'', u_username = ''maria'', u_password = ''$2b$10$s2segredo'',
       u_email = None, u_firstName = Some ''Maria'', u_lastName = None,
       u_role = ''operator'', u_active = True,
       u_createdAt = Some 1700000000001, u_updatedAt = Some 1700000000001 \<rparr>"

definition test_inactive :: user_row where
  "test_inactive =
     \<lparr> u_id = ''u3'', u_username = ''joao'', u_password = ''$2b$10$s3senha'',
       u_email = None, u_firstName = None, u_lastName = None,
       u_role = ''operator'', u_active = False,
       u_createdAt = Some 1700000000002, u_updatedAt = Some 1700000000002 \<rparr>"

definition test_cbo :: cbo_row where
  "test_cbo =
     \<lparr> cbo_id = ''c1'', cbo_codigo = ''225125'', cbo_descricao = ''Medico clinico'',
       cbo_status = True, cbo_createdAt = Some 1700000000100,
       cbo_updatedAt = Some 1700000000100 \<rparr>"

definition test_prestador1 :: prestador_row where
  "test_prestador1 =
     \<lparr> prest_id = ''p1'', prest_codigo = ''001'',
       prest_nomeRazaoSocial = ''Hospital Municipal'', prest_cnpjCpf = ''12.345.678/0001-90'',
       prest_tipo = ''pessoa_juridica'', prest_status = True,
       prest_createdAt = Some 1700000000200, prest_updatedAt = Some 1700000000200 \<rparr>"

definition test_prestador2 :: prestador_row where
  "test_prestador2 =
     \<lparr> prest_id = ''p2'', prest_codigo = ''002'',
       prest_nomeRazaoSocial = ''Clinica Santa Maria'', prest_cnpjCpf = ''98.765.432/0001-10'',
       prest_tipo = ''pessoa_juridica'', prest_status = True,
       prest_createdAt = Some 1700000000201, prest_updatedAt = Some 1700000000201 \<rparr>"

definition test_procedimento :: procedimento_row where
  "test_procedimento =
     \<lparr> proc_id = ''x1'', proc_codigo = ''X'', proc_descricao = ''Consulta medica'',
       proc_valor = ''10.00'', proc_complexidade = ''baixa'', proc_status = True,
       proc_createdAt = Some 1700000000300, proc_updatedAt = Some 1700000000300 \<rparr>"

definition test_record1 :: consulta_prod_row where
  "test_record1 =
     \<lparr> prd_id = ''k1'', prdDtcomp = 1704067200000, prdDtreal = 1704153600000,
       prdCbo = None, prdPrest = Some ''p1'', prdProc = Some ''x1'', prdQtd = 2,
       prdVlP = ''20.00'', prdRub = None, prdCidpri = None,
       prd_createdAt = Some 1704200000000, prd_updatedAt = Some 1704200000000 \<rparr>"

definition test_record2 :: consulta_prod_row where
  "test_record2 =
     \<lparr> prd_id = ''k2'', prdDtcomp = 1709251200000, prdDtreal = 1709337600000,
       prdCbo = Some ''c1'', prdPrest = None, prdProc = Some ''x1'', prdQtd = 1,
       prdVlP = ''10.00'', prdRub = None, prdCidpri = Some ''J00'',
       prd_createdAt = Some 1709400000000, prd_updatedAt = Some 1709400000000 \<rparr>"

definition test_record3 :: consulta_prod_row where
  "test_record3 =
     \<lparr> prd_id = ''k3'', prdDtcomp = 1701388800000, prdDtreal = 1701475200000,
       prdCbo = Some ''c1'', prdPrest = Some ''p1'', prdProc = None, prdQtd = 3,
       prdVlP = ''30.00'', prdRub = None, prdCidpri = None,
       prd_createdAt = Some 1701500000000, prd_updatedAt = Some 1701500000000 \<rparr>"

definition test_db :: db where
  "test_db =
     \<lparr> users = [test_admin, test_operator, test_inactive],
       cbo = [test_cbo],
       prestador = [test_prestador1, test_prestador2],
       procedimento = [test_procedimento],
       sRub = [],
       consultaProd = [test_record1, test_record2, test_record3],
       auditLog = [] \<rparr>"

definition test_record_dangling :: consulta_prod_row where
  "test_record_dangling =
     \<lparr> prd_id = ''k9'', prdDtcomp = 1706745600000, prdDtreal = 1706832000000,
       prdCbo = None, prdPrest = Some ''p1'', prdProc = Some ''x1'', prdQtd = 1,
       prdVlP = ''10.00'', prdRub = Some ''missing'', prdCidpri = None,
       prd_createdAt = Some 1706900000000, prd_updatedAt = Some 1706900000000 \<rparr>"

definition test_db_dangling :: db where
  "test_db_dangling = test_db\<lparr> consultaProd := consultaProd test_db @ [test_record_dangling] \<rparr>"

definition test_request :: request where
  "test_request =
     \<lparr> authorization = Some ''Bearer jwt:admin'', param_id = ''p2'',
       query_page = None, query_limit = None, query_search = None,
       query_filters = None, req_body = JUndefined \<rparr>"

definition login_request :: "string \<Rightarrow> string \<Rightarrow> request" where
  "login_request username password =
     \<lparr> authorization = None, param_id = [], query_page = None, query_limit = None,
       query_search = None, query_filters = None,
       req_body = JObj [(''username'', JStr username), (''password'', JStr password)] \<rparr>"

definition empty_password_update :: partial_user where
  "empty_password_update =
     \<lparr> pu_username = None, pu_password = Some [], pu_email = None, pu_firstName = None,
       pu_lastName = None, pu_role = None, pu_active = None \<rparr>"

definition empty_password_insert :: insert_user where
  "empty_password_insert =
     \<lparr> iu_username = ''ana'', iu_password = [], iu_email = None, iu_firstName = None,
       iu_lastName = None, iu_role = None, iu_active = None \<rparr>"

section \<open>The compiled filter\<close>

lemma falsy_get: "\<not> truthy f \<Longrightarrow> js_get f k = JUndefined"
  by (cases f) auto

lemma whereConditions_unguarded:
  "whereConditions pf f =
        (if truthy (js_get f ''dateFrom'')
         then [GteDtcomp (new_Date pf (js_get f ''dateFrom''))] else []) @
        (if truthy (js_get f ''dateTo'')
         then [LteDtcomp (new_Date pf (js_get f ''dateTo''))] else []) @
        (if truthy (js_get f ''prestador'')
         then [EqPrest (js_get f ''prestador'')] else []) @
        (if truthy (js_get f ''procedimento'')
         then [EqProc (js_get f ''procedimento'')] else [])"
  by (cases "truthy f") (simp_all add: whereConditions_def falsy_get)

lemma matches_whereCondition:
  "matches pf (whereCondition pf f) r \<longleftrightarrow>
     (truthy (js_get f ''dateFrom'') \<longrightarrow>
        (\<exists>t. new_Date pf (js_get f ''dateFrom'') = Some t \<and> t \<le> prdDtcomp r)) \<and>
     (truthy (js_get f ''dateTo'') \<longrightarrow>
        (\<exists>t. new_Date pf (js_get f ''dateTo'') = Some t \<and> prdDtcomp r \<le> t)) \<and>
     (truthy (js_get f ''prestador'') \<longrightarrow>
        prdPrest r = Some (param_text pf (js_get f ''prestador''))) \<and>
     (truthy (js_get f ''procedimento'') \<longrightarrow>
        prdProc r = Some (param_text pf (js_get f ''procedimento'')))"
  unfolding whereCondition_def matches_def Let_def whereConditions_unguarded
  by (auto split: option.splits)

lemma whereCondition_cong:
  assumes "\<forall>k\<in>set recognized_keys. js_get f k = js_get g k"
  shows "whereCondition pf f = whereCondition pf g"
  using assms
  unfolding whereCondition_def Let_def whereConditions_unguarded recognized_keys_def
  by simp

lemma whereCondition_none:
  assumes "\<forall>k\<in>set recognized_keys. \<not> truthy (js_get f k)"
  shows "whereCondition pf f = None"
  using assms
  unfolding whereCondition_def Let_def whereConditions_unguarded recognized_keys_def
  by simp

section \<open>Left joins on a key\<close>

lemma filter_fk_eq:
  "distinct (map key rs) \<Longrightarrow>
   filter (\<lambda>r. fk_eq fk (key r)) rs = (case lookup_by key rs fk of None \<Rightarrow> [] | Some m \<Rightarrow> [m])"
proof (induction rs)
  case Nil
  then show ?case by (simp add: lookup_by_def split: option.splits)
next
  case (Cons a rs)
  show ?case
  proof (cases fk)
    case None
    then show ?thesis by (simp add: fk_eq_def lookup_by_def)
  next
    case (Some k)
    show ?thesis
    proof (cases "key a = k")
      case True
      from Cons.prems have "key a \<notin> set (map key rs)" by simp
      with True have "\<forall>r\<in>set rs. key r \<noteq> k" by (metis imageI set_map)
      then have "filter (\<lambda>r. fk_eq fk (key r)) rs = []"
        using Some by (auto simp: fk_eq_def filter_empty_conv)
      then show ?thesis using True Some by (simp add: fk_eq_def lookup_by_def)
    next
      case False
      then show ?thesis using Cons Some by (simp add: fk_eq_def lookup_by_def)
    qed
  qed
qed

lemma leftJoin_pk:
  assumes "distinct (map key rs)"
  shows "leftJoin ls rs (\<lambda>l r. fk_eq (f l) (key r)) = map (\<lambda>l. (l, lookup_by key rs (f l))) ls"
proof (induction ls)
  case Nil
  then show ?case by (simp add: leftJoin_def)
next
  case (Cons l ls)
  have "(case filter (\<lambda>r. fk_eq (f l) (key r)) rs of [] \<Rightarrow> [(l, None)] | ms \<Rightarrow> map (\<lambda>m. (l, Some m)) ms)
        = [(l, lookup_by key rs (f l))]"
    by (simp add: filter_fk_eq[OF assms] split: option.splits)
  with Cons show ?case by (simp add: leftJoin_def)
qed

lemma joined_pk:
  assumes "reference_keys d"
  shows "joined d = map (join_one d) (consultaProd d)"
proof -
  from assms have k: "distinct (map cbo_id (cbo d))" "distinct (map prest_id (prestador d))"
    "distinct (map proc_id (procedimento d))" "distinct (map srub_id (sRub d))"
    by (simp_all add: reference_keys_def)
  show ?thesis
    unfolding joined_def
    by (simp add: leftJoin_pk[OF k(1)] leftJoin_pk[OF k(2)] leftJoin_pk[OF k(3)]
        leftJoin_pk[OF k(4)] join_one_def)
qed

lemma fact_join_one: "fact (join_one d p) = p"
  by (simp add: fact_def join_one_def)

lemma report_rows_pk:
  assumes "reference_keys d"
  shows "report_rows pf d w =
         orderBy_desc rr_prdDtcomp
           (map (\<lambda>p. select_report (join_one d p)) (filter (matches pf w) (consultaProd d)))"
  unfolding report_rows_def joined_pk[OF assms]
  by (simp add: filter_map o_def fact_join_one)

lemma rr_id_select: "rr_id (select_report (join_one d p)) = prd_id p"
  by (simp add: select_report_def join_one_def)

lemma length_report_rows:
  assumes "reference_keys d"
  shows "length (report_rows pf d w) = count_rows pf d w"
  by (simp add: report_rows_pk[OF assms] orderBy_desc_def count_rows_def)

lemma mset_report_rows:
  assumes "reference_keys d"
  shows "mset (map rr_id (report_rows pf d w)) =
         mset (map prd_id (filter (matches pf w) (consultaProd d)))"
proof -
  have "mset (map rr_id (report_rows pf d w)) =
        image_mset rr_id (mset (map (\<lambda>p. select_report (join_one d p)) (filter (matches pf w) (consultaProd d))))"
    by (simp add: report_rows_pk[OF assms] orderBy_desc_def)
  also have "\<dots> = mset (map prd_id (filter (matches pf w) (consultaProd d)))"
    by (simp add: multiset.map_comp o_def rr_id_select)
  finally show ?thesis .
qed

lemma sorted_orderBy_desc: "sorted_wrt (\<lambda>x y. col x \<ge> col y) (orderBy_desc col xs)"
proof -
  have "sorted (map (\<lambda>x. - col x) (orderBy_desc col xs))"
    unfolding orderBy_desc_def by (rule sorted_sort_key)
  then show ?thesis by (simp add: sorted_wrt_map)
qed

lemma sorted_report_rows:
  "sorted_wrt (\<lambda>x y. rr_prdDtcomp x \<ge> rr_prdDtcomp y) (report_rows pf d w)"
  unfolding report_rows_def by (rule sorted_orderBy_desc)

lemma getConsultaProdData_ok:
  assumes "0 \<le> limit" "limit \<le> 9223372036854775807" "1 \<le> page"
    and "(page - 1) * limit \<le> 9223372036854775807"
    and "\<forall>c. whereCondition pf filters = Some c \<longrightarrow> encodable c \<and> accepted pf c"
  shows "getConsultaProdData pf d filters page limit =
         Inr \<lparr> data = take (nat limit) (drop (nat ((page - 1) * limit))
                        (report_rows pf d (whereCondition pf filters))),
               total = count_rows pf d (whereCondition pf filters) \<rparr>"
proof -
  have "0 \<le> (page - 1) * limit" using assms(1,3) by simp
  then have nn: "\<not> (page - 1) * limit < 0" by simp
  have big: "pg_bigint_ok limit" "pg_bigint_ok ((page - 1) * limit)"
    using assms(1,2,4) \<open>0 \<le> (page - 1) * limit\<close> by (simp_all add: pg_bigint_ok_def)
  have lo: "limit_offset limit ((page - 1) * limit) xs =
              Inr (take (nat limit) (drop (nat ((page - 1) * limit)) xs))" for xs :: "report_row list"
    using assms(1) by (simp add: limit_offset_def nn big)
  show ?thesis using assms(5)
    by (cases "whereCondition pf filters") (simp_all add: getConsultaProdData_def Let_def lo)
qed

lemma safe_page_bounds:
  assumes "1 \<le> page" "0 < limit" "page * limit \<le> MAX_SAFE_INTEGER"
  shows "limit \<le> 9223372036854775807" "(page - 1) * limit \<le> 9223372036854775807"
proof -
  have nn: "0 \<le> (page - 1) * limit" using assms(1,2) by simp
  have eq: "page * limit = (page - 1) * limit + limit" by (simp add: algebra_simps)
  from assms(3) have le: "page * limit \<le> 9007199254740991" by (simp add: MAX_SAFE_INTEGER_def)
  show "limit \<le> 9223372036854775807" using nn eq le by linarith
  show "(page - 1) * limit \<le> 9223372036854775807" using assms(2) eq le by linarith
qed

lemma select_join_one_report_of: "select_report (join_one d r) = report_of d r"
  by (simp add: select_report_def join_one_def report_of_def lookup_by_def split: option.splits)

lemma mset_report_rows_report_of:
  assumes "reference_keys d"
  shows "mset (report_rows pf d w) =
         image_mset (report_of d) (mset (filter (matches pf w) (consultaProd d)))"
  by (simp add: report_rows_pk[OF assms] orderBy_desc_def select_join_one_report_of)

lemma lookup_by_None:
  "lookup_by key rs fk = None \<longleftrightarrow> (fk = None \<or> (\<forall>r\<in>set rs. fk \<noteq> Some (key r)))"
  by (cases fk) (auto simp: lookup_by_def find_None_iff)

lemma select_join_one_in_rows:
  assumes "reference_keys d" "r \<in> set (consultaProd d)" "matches pf w r"
  shows "select_report (join_one d r) \<in> set (report_rows pf d w)"
  using assms(2,3) by (simp add: report_rows_pk[OF assms(1)] orderBy_desc_def)

lemma on_some_page:
  assumes "x \<in> set xs" "0 < limit"
  shows "\<exists>page. 1 \<le> page \<and> (page - 1) * limit < int (length xs) \<and>
               x \<in> set (take (nat limit) (drop (nat ((page - 1) * limit)) xs))"
proof -
  define n where "n = nat limit"
  have n: "0 < n" "limit = int n" using assms(2) by (simp_all add: n_def)
  from assms(1) obtain i where i: "i < length xs" "xs ! i = x"
    by (auto simp: in_set_conv_nth)
  define m where "m = (i div n) * n"
  have mi: "m + i mod n = i" by (simp add: m_def)
  then have le: "m \<le> i" by arith
  have "i mod n < n" using n by simp
  moreover have "i mod n < length xs - m" using i(1) mi by arith
  ultimately have len: "i mod n < length (take n (drop m xs))" by simp
  have "take n (drop m xs) ! (i mod n) = xs ! (m + i mod n)"
    using len le i(1) by simp
  then have "take n (drop m xs) ! (i mod n) = x" using mi i(2) by simp
  with len have mem: "x \<in> set (take n (drop m xs))" by (metis nth_mem)
  have off: "(int (i div n) + 1 - 1) * limit = int m"
    by (simp add: m_def n(2))
  then have "nat ((int (i div n) + 1 - 1) * limit) = m" by simp
  with mem have "x \<in> set (take (nat limit) (drop (nat ((int (i div n) + 1 - 1) * limit)) xs))"
    by (simp add: n_def)
  moreover have "1 \<le> int (i div n) + 1" by simp
  moreover have "(int (i div n) + 1 - 1) * limit < int (length xs)"
    using off le i(1) by simp
  ultimately show ?thesis by blast
qed

text \<open>
  C1. The predicate compiled from a filters value is the conjunction of one
  predicate for each of \<open>dateFrom\<close>, \<open>dateTo\<close>, \<open>prestador\<close>, \<open>procedimento\<close>
  that is present and non-empty (truthy): competence date not before the
  \<open>dateFrom\<close> date, not after the \<open>dateTo\<close> date, provider key equal to the
  \<open>prestador\<close> value, procedure key equal to the \<open>procedimento\<close> value. Two
  filters that agree on the four keys compile to the same predicate, whatever
  other keys they carry. When none of the four is present and non-empty, there is
  no predicate: every row matches and the count is the size of the table.
\<close>

theorem whereCondition_conjunction:
  "(matches pf (whereCondition pf f) r \<longleftrightarrow>
      (truthy (js_get f ''dateFrom'') \<longrightarrow>
         (\<exists>t. new_Date pf (js_get f ''dateFrom'') = Some t \<and> t \<le> prdDtcomp r)) \<and>
      (truthy (js_get f ''dateTo'') \<longrightarrow>
         (\<exists>t. new_Date pf (js_get f ''dateTo'') = Some t \<and> prdDtcomp r \<le> t)) \<and>
      (truthy (js_get f ''prestador'') \<longrightarrow>
         prdPrest r = Some (param_text pf (js_get f ''prestador''))) \<and>
      (truthy (js_get f ''procedimento'') \<longrightarrow>
         prdProc r = Some (param_text pf (js_get f ''procedimento'')))) \<and>
   ((\<forall>k\<in>set recognized_keys. js_get f k = js_get g k) \<longrightarrow>
      whereCondition pf f = whereCondition pf g) \<and>
   ((\<forall>k\<in>set recognized_keys. \<not> truthy (js_get f k)) \<longrightarrow>
      whereCondition pf f = None \<and> matches pf (whereCondition pf f) r \<and>
      count_rows pf d (whereCondition pf f) = length (consultaProd d))"
proof (intro conjI impI)
  show "matches pf (whereCondition pf f) r \<longleftrightarrow>
      (truthy (js_get f ''dateFrom'') \<longrightarrow>
         (\<exists>t. new_Date pf (js_get f ''dateFrom'') = Some t \<and> t \<le> prdDtcomp r)) \<and>
      (truthy (js_get f ''dateTo'') \<longrightarrow>
         (\<exists>t. new_Date pf (js_get f ''dateTo'') = Some t \<and> prdDtcomp r \<le> t)) \<and>
      (truthy (js_get f ''prestador'') \<longrightarrow>
         prdPrest r = Some (param_text pf (js_get f ''prestador''))) \<and>
      (truthy (js_get f ''procedimento'') \<longrightarrow>
         prdProc r = Some (param_text pf (js_get f ''procedimento'')))"
    by (rule matches_whereCondition)
next
  assume "\<forall>k\<in>set recognized_keys. js_get f k = js_get g k"
  then show "whereCondition pf f = whereCondition pf g" by (rule whereCondition_cong)
next
  assume a: "\<forall>k\<in>set recognized_keys. \<not> truthy (js_get f k)"
  then show n: "whereCondition pf f = None" by (rule whereCondition_none)
  show "matches pf (whereCondition pf f) r" by (simp add: n matches_def)
  show "count_rows pf d (whereCondition pf f) = length (consultaProd d)"
    by (simp add: n count_rows_def matches_def)
qed

theorem whereCondition_conjunction_witness:
  "matches test_platform
     (whereCondition test_platform
        (JObj [(''dateFrom'', JStr ''2024-01-01''), (''prestador'', JStr ''p1''),
               (''filter_0'', JObj [(''field'', JStr ''prdQtd''), (''operator'', JStr ''greaterThan''),
                                    (''value'', JStr ''1'')])])) test_record1 \<and>
   whereCondition test_platform
        (JObj [(''dateFrom'', JStr ''2024-01-01''), (''prestador'', JStr ''p1''),
               (''filter_0'', JObj [(''field'', JStr ''prdQtd''), (''operator'', JStr ''greaterThan''),
                                    (''value'', JStr ''1'')])]) =
   whereCondition test_platform
        (JObj [(''dateFrom'', JStr ''2024-01-01''), (''prestador'', JStr ''p1'')]) \<and>
   count_rows test_platform test_db
     (whereCondition test_platform
        (JObj [(''filter_0'', JObj [(''field'', JStr ''prdQtd'')])])) = 3"
proof -
  let ?f = "JObj [(''dateFrom'', JStr ''2024-01-01''), (''prestador'', JStr ''p1''),
               (''filter_0'', JObj [(''field'', JStr ''prdQtd''), (''operator'', JStr ''greaterThan''),
                                    (''value'', JStr ''1'')])]"
  let ?g = "JObj [(''dateFrom'', JStr ''2024-01-01''), (''prestador'', JStr ''p1'')]"
  let ?h = "JObj [(''filter_0'', JObj [(''field'', JStr ''prdQtd'')])]"
  have same: "\<forall>k\<in>set recognized_keys. js_get ?f k = js_get ?g k"
    by (simp add: recognized_keys_def)
  have none: "\<forall>k\<in>set recognized_keys. \<not> truthy (js_get ?h k)"
    by (simp add: recognized_keys_def)
  have row: "(truthy (js_get ?f ''dateFrom'') \<longrightarrow>
         (\<exists>t. new_Date test_platform (js_get ?f ''dateFrom'') = Some t \<and> t \<le> prdDtcomp test_record1)) \<and>
      (truthy (js_get ?f ''dateTo'') \<longrightarrow>
         (\<exists>t. new_Date test_platform (js_get ?f ''dateTo'') = Some t \<and> prdDtcomp test_record1 \<le> t)) \<and>
      (truthy (js_get ?f ''prestador'') \<longrightarrow>
         prdPrest test_record1 = Some (param_text test_platform (js_get ?f ''prestador''))) \<and>
      (truthy (js_get ?f ''procedimento'') \<longrightarrow>
         prdProc test_record1 = Some (param_text test_platform (js_get ?f ''procedimento'')))"
    by (simp add: test_platform_def test_record1_def param_text_def)
  have len: "length (consultaProd test_db) = 3" by (simp add: test_db_def)
  from whereCondition_conjunction[of test_platform ?f test_record1 ?g test_db] row same
  have 1: "matches test_platform (whereCondition test_platform ?f) test_record1"
    and 2: "whereCondition test_platform ?f = whereCondition test_platform ?g"
    by blast+
  from whereCondition_conjunction[of test_platform ?h test_record1 ?h test_db] none len
  have 3: "count_rows test_platform test_db (whereCondition test_platform ?h) = 3"
    by metis
  from 1 2 3 show ?thesis by blast
qed


lemma test_db_keys: "reference_keys test_db"
  by (simp add: reference_keys_def test_db_def test_prestador1_def test_prestador2_def)

lemma test_rows_all:
  "report_rows test_platform test_db None =
     [report_of test_db test_record2, report_of test_db test_record1,
      report_of test_db test_record3]"
  unfolding report_rows_pk[OF test_db_keys] select_join_one_report_of
  by (simp add: matches_def orderBy_desc_def test_db_def report_of_def
      test_record1_def test_record2_def test_record3_def)

lemma whereCondition_empty: "whereCondition pf (JObj []) = None"
  by (simp add: whereCondition_def whereConditions_def)

text \<open>
  C2, as the code has it. Let the filter's dates be valid dates the database
  accepts and its text values free of U+0000, the page at least 1, the limit
  positive and \<open>page * limit\<close> within \<open>Number.MAX_SAFE_INTEGER\<close>, with the
  primary keys of the reference tables in place. Then there is one list of the
  report rows of the matching production records, ordered by competence date
  descending, of which \<open>getConsultaProdData\<close> returns, as \<open>data\<close>, the entries at
  the indices from \<open>(page - 1) * limit\<close> up to, not including, \<open>page * limit\<close>;
  \<open>total\<close> is the number of matching records, the same for every page; and
  \<open>data\<close> is empty with that total when the page starts past the last
  matching record.
\<close>

theorem getConsultaProdData_pagination:
  assumes "reference_keys d" and "1 \<le> page" and "0 < limit"
    and "page * limit \<le> MAX_SAFE_INTEGER"
    and "\<forall>c. whereCondition pf filters = Some c \<longrightarrow> encodable c \<and> accepted pf c"
  shows "\<exists>res rows.
           getConsultaProdData pf d filters page limit = Inr res \<and>
           mset rows =
             image_mset (report_of d)
               (mset (filter (matches pf (whereCondition pf filters)) (consultaProd d))) \<and>
           sorted_wrt (\<lambda>x y. rr_prdDtcomp x \<ge> rr_prdDtcomp y) rows \<and>
           data res = take (nat limit) (drop (nat ((page - 1) * limit)) rows) \<and>
           total res = length (filter (matches pf (whereCondition pf filters)) (consultaProd d)) \<and>
           length rows = total res \<and>
           length (data res) = min (nat limit) (total res - nat ((page - 1) * limit)) \<and>
           (\<forall>i<length (data res). data res ! i = rows ! (nat ((page - 1) * limit) + i)) \<and>
           (\<forall>page' limit'.
              1 \<le> page' \<and> 0 < limit' \<and> page' * limit' \<le> MAX_SAFE_INTEGER \<longrightarrow>
              (\<exists>res'. getConsultaProdData pf d filters page' limit' = Inr res' \<and>
                      data res' = take (nat limit') (drop (nat ((page' - 1) * limit')) rows) \<and>
                      total res' = total res)) \<and>
           (total res \<le> nat ((page - 1) * limit) \<longrightarrow> data res = [])"
proof -
  let ?w = "whereCondition pf filters"
  let ?rows = "report_rows pf d ?w"
  let ?res = "\<lparr> data = take (nat limit) (drop (nat ((page - 1) * limit)) ?rows),
                 total = count_rows pf d ?w \<rparr>"
  have ok: "getConsultaProdData pf d filters page limit = Inr ?res"
    using assms(2,3,5) safe_page_bounds[OF assms(2,3,4)]
    by (intro getConsultaProdData_ok) simp_all
  have len: "length ?rows = count_rows pf d ?w"
    by (rule length_report_rows[OF assms(1)])
  have cnt: "count_rows pf d ?w = length (filter (matches pf ?w) (consultaProd d))"
    by (simp add: count_rows_def)
  have every: "\<forall>page' limit'.
              1 \<le> page' \<and> 0 < limit' \<and> page' * limit' \<le> MAX_SAFE_INTEGER \<longrightarrow>
              (\<exists>res'. getConsultaProdData pf d filters page' limit' = Inr res' \<and>
                      data res' = take (nat limit') (drop (nat ((page' - 1) * limit')) ?rows) \<and>
                      total res' = total ?res)"
  proof (intro allI impI)
    fix page' limit' :: int
    assume a: "1 \<le> page' \<and> 0 < limit' \<and> page' * limit' \<le> MAX_SAFE_INTEGER"
    then have a1: "1 \<le> page'" and a2: "0 < limit'" and a3: "page' * limit' \<le> MAX_SAFE_INTEGER"
      by simp_all
    note b = safe_page_bounds[OF a1 a2 a3]
    have "getConsultaProdData pf d filters page' limit' =
         Inr \<lparr> data = take (nat limit') (drop (nat ((page' - 1) * limit')) ?rows),
               total = count_rows pf d ?w \<rparr>"
      using a b assms(5) by (intro getConsultaProdData_ok) simp_all
    then show "\<exists>res'. getConsultaProdData pf d filters page' limit' = Inr res' \<and>
                      data res' = take (nat limit') (drop (nat ((page' - 1) * limit')) ?rows) \<and>
                      total res' = total ?res"
      by simp
  qed
  have perm: "mset ?rows =
             image_mset (report_of d) (mset (filter (matches pf ?w) (consultaProd d)))"
    by (rule mset_report_rows_report_of[OF assms(1)])
  have srt: "sorted_wrt (\<lambda>x y. rr_prdDtcomp x \<ge> rr_prdDtcomp y) ?rows"
    by (rule sorted_report_rows)
  have d: "data ?res = take (nat limit) (drop (nat ((page - 1) * limit)) ?rows)" by simp
  have t: "total ?res = length (filter (matches pf ?w) (consultaProd d))"
    by (simp add: cnt)
  have l: "length ?rows = total ?res" by (simp add: len)
  have dl: "length (data ?res) = min (nat limit) (total ?res - nat ((page - 1) * limit))"
    by (simp add: len)
  have nth: "\<forall>i<length (data ?res).
              data ?res ! i = ?rows ! (nat ((page - 1) * limit) + i)"
  proof (intro allI impI)
    fix i
    assume "i < length (data ?res)"
    then have "i < nat limit" "nat ((page - 1) * limit) \<le> length ?rows" by auto
    then show "data ?res ! i = ?rows ! (nat ((page - 1) * limit) + i)" by simp
  qed
  have past: "total ?res \<le> nat ((page - 1) * limit) \<longrightarrow> data ?res = []"
    by (simp add: len)
  show ?thesis
    by (intro exI[of _ ?res] exI[of _ ?rows] conjI) (rule ok perm srt d t l dl nth every past)+
qed

theorem getConsultaProdData_pagination_witness:
  "\<exists>res. getConsultaProdData test_platform test_db (JObj []) 1 2 = Inr res \<and>
         map rr_id (data res) = [''k2'', ''k1''] \<and>
         map rr_prdDtcomp (data res) = [1709251200000, 1704067200000] \<and>
         map rr_cbo (data res) =
           [Some \<lparr> cr_id = ''c1'', cr_codigo = ''225125'', cr_descricao = ''Medico clinico'' \<rparr>,
            None] \<and>
         total res = 3"
proof -
  have enc: "\<forall>c. whereCondition test_platform (JObj []) = Some c \<longrightarrow>
               encodable c \<and> accepted test_platform c"
    by (simp add: whereCondition_empty)
  have p: "(1::int) \<le> 1" and l: "(0::int) < 2" and m: "(1::int) * 2 \<le> MAX_SAFE_INTEGER"
    by (simp_all add: MAX_SAFE_INTEGER_def)
  from getConsultaProdData_pagination[OF test_db_keys p l m enc]
  obtain res rows where res:
    "getConsultaProdData test_platform test_db (JObj []) 1 2 = Inr res"
    by (elim exE conjE) (rule that)
  have cnt: "count_rows test_platform test_db None = 3"
    by (simp add: count_rows_def matches_def test_db_def)
  have ev: "getConsultaProdData test_platform test_db (JObj []) 1 2 =
              Inr \<lparr> data = [report_of test_db test_record2, report_of test_db test_record1],
                    total = 3 \<rparr>"
    by (simp add: getConsultaProdData_def whereCondition_empty limit_offset_def pg_bigint_ok_def
        test_rows_all cnt)
  from res ev have r: "res = \<lparr> data = [report_of test_db test_record2, report_of test_db test_record1],
                    total = 3 \<rparr>" by simp
  have ids: "map rr_id (data res) = [''k2'', ''k1'']"
    and dts: "map rr_prdDtcomp (data res) = [1709251200000, 1704067200000]"
    and cbos: "map rr_cbo (data res) =
           [Some \<lparr> cr_id = ''c1'', cr_codigo = ''225125'', cr_descricao = ''Medico clinico'' \<rparr>,
            None]"
    and tot: "total res = 3"
    by (simp_all add: r report_of_def test_record1_def test_record2_def test_db_def
        test_cbo_def cbo_fields_def)
  show ?thesis by (rule exI[of _ res]) (simp add: res ids dts cbos tot)
qed

text \<open>
  C2 as stated fails: with page 1 and a positive limit the call throws, and
  returns neither rows nor a total, for a filter whose \<open>dateFrom\<close> is not a
  date, for one whose \<open>dateFrom\<close> is the date 0000-01-01, for one whose
  \<open>prestador\<close> contains U+0000, and for the limit \<open>2^63\<close>.
\<close>

theorem getConsultaProdData_throws_counterexample:
  "getConsultaProdData test_platform test_db (JObj [(''dateFrom'', JStr ''garbage'')]) 1 10 =
     Inl RangeError \<and>
   getConsultaProdData test_platform test_db (JObj [(''dateFrom'', JStr ''0000-01-01'')]) 1 10 =
     Inl (DbError InvalidParameter) \<and>
   getConsultaProdData test_platform test_db
     (JObj [(''prestador'', JStr [CHR ''a'', CHR 0x00, CHR ''b''])]) 1 10 =
     Inl (DbError InvalidParameter) \<and>
   getConsultaProdData test_platform test_db (JObj []) 1 9223372036854775808 =
     Inl (DbError BigintOutOfRange)"
proof -
  have 1: "getConsultaProdData test_platform test_db (JObj [(''dateFrom'', JStr ''garbage'')]) 1 10 =
     Inl RangeError"
    by (simp add: getConsultaProdData_def whereCondition_def whereConditions_def test_platform_def)
  have 2: "getConsultaProdData test_platform test_db (JObj [(''dateFrom'', JStr ''0000-01-01'')]) 1 10 =
     Inl (DbError InvalidParameter)"
    by (simp add: getConsultaProdData_def whereCondition_def whereConditions_def test_platform_def
        pg_timestamp_ok_def)
  have 3: "getConsultaProdData test_platform test_db
     (JObj [(''prestador'', JStr [CHR ''a'', CHR 0x00, CHR ''b''])]) 1 10 =
     Inl (DbError InvalidParameter)"
    by (simp add: getConsultaProdData_def whereCondition_def whereConditions_def param_text_def
        pg_text_ok_def)
  have 4: "getConsultaProdData test_platform test_db (JObj []) 1 9223372036854775808 =
     Inl (DbError BigintOutOfRange)"
    by (simp add: getConsultaProdData_def whereCondition_empty limit_offset_def pg_bigint_ok_def)
  from 1 2 3 4 show ?thesis by (intro conjI)
qed

lemma select_join_one_fields:
  "rr_id (select_report (join_one d r)) = prd_id r"
  "rr_prdDtcomp (select_report (join_one d r)) = prdDtcomp r"
  "rr_cbo (select_report (join_one d r)) = map_option cbo_fields (lookup_by cbo_id (cbo d) (prdCbo r))"
  "rr_prestador (select_report (join_one d r)) =
     map_option prestador_fields (lookup_by prest_id (prestador d) (prdPrest r))"
  "rr_procedimento (select_report (join_one d r)) =
     map_option procedimento_fields (lookup_by proc_id (procedimento d) (prdProc r))"
  "rr_sRub (select_report (join_one d r)) =
     map_option srub_fields (lookup_by srub_id (sRub d) (prdRub r))"
  by (simp_all add: select_report_def join_one_def)

text \<open>
  C3. With the primary keys of the reference tables in place, every production
  record that matches the predicate is returned, whatever its foreign keys: for
  every query the database runs (a filter whose dates it accepts and whose
  texts are free of U+0000; a positive limit and a fact table within
  \<open>Number.MAX_SAFE_INTEGER\<close>) it is on some page, it is counted in \<open>total\<close>,
  and each of its four nested objects is the referenced row's fields when the
  foreign key names a row of the joined table and \<open>null\<close> when the key is NULL
  or names no row.
\<close>

theorem left_joins_keep_row:
  assumes "reference_keys d" and "r \<in> set (consultaProd d)"
    and "matches pf (whereCondition pf filters) r"
    and "\<forall>c. whereCondition pf filters = Some c \<longrightarrow> encodable c \<and> accepted pf c"
    and "0 < limit" and "limit \<le> MAX_SAFE_INTEGER"
    and "int (length (consultaProd d)) \<le> MAX_SAFE_INTEGER"
  shows "\<exists>page res x.
           1 \<le> page \<and> getConsultaProdData pf d filters page limit = Inr res \<and>
           x \<in> set (data res) \<and> rr_id x = prd_id r \<and> rr_prdDtcomp x = prdDtcomp r \<and>
           rr_cbo x = map_option cbo_fields (lookup_by cbo_id (cbo d) (prdCbo r)) \<and>
           rr_prestador x =
             map_option prestador_fields (lookup_by prest_id (prestador d) (prdPrest r)) \<and>
           rr_procedimento x =
             map_option procedimento_fields (lookup_by proc_id (procedimento d) (prdProc r)) \<and>
           rr_sRub x = map_option srub_fields (lookup_by srub_id (sRub d) (prdRub r)) \<and>
           (rr_cbo x = None \<longleftrightarrow>
              prdCbo r = None \<or> (\<forall>c\<in>set (cbo d). prdCbo r \<noteq> Some (cbo_id c))) \<and>
           (rr_prestador x = None \<longleftrightarrow>
              prdPrest r = None \<or> (\<forall>q\<in>set (prestador d). prdPrest r \<noteq> Some (prest_id q))) \<and>
           (rr_procedimento x = None \<longleftrightarrow>
              prdProc r = None \<or> (\<forall>q\<in>set (procedimento d). prdProc r \<noteq> Some (proc_id q))) \<and>
           (rr_sRub x = None \<longleftrightarrow>
              prdRub r = None \<or> (\<forall>s\<in>set (sRub d). prdRub r \<noteq> Some (srub_id s))) \<and>
           total res = length (filter (matches pf (whereCondition pf filters)) (consultaProd d)) \<and>
           0 < total res"
proof -
  let ?w = "whereCondition pf filters"
  let ?x = "select_report (join_one d r)"
  have "?x \<in> set (report_rows pf d ?w)"
    by (rule select_join_one_in_rows[OF assms(1,2,3)])
  from on_some_page[OF this assms(5)] obtain page where
    page: "1 \<le> page"
      "(page - 1) * limit < int (length (report_rows pf d ?w))"
      "?x \<in> set (take (nat limit) (drop (nat ((page - 1) * limit)) (report_rows pf d ?w)))"
    by blast
  have "length (report_rows pf d ?w) \<le> length (consultaProd d)"
    by (simp add: length_report_rows[OF assms(1)] count_rows_def)
  with page(2) assms(7) have off: "(page - 1) * limit \<le> 9223372036854775807"
    by (simp add: MAX_SAFE_INTEGER_def)
  from assms(6) have lim: "limit \<le> 9223372036854775807"
    by (simp add: MAX_SAFE_INTEGER_def)
  let ?res = "\<lparr> data = take (nat limit) (drop (nat ((page - 1) * limit)) (report_rows pf d ?w)),
                 total = count_rows pf d ?w \<rparr>"
  have ok: "getConsultaProdData pf d filters page limit = Inr ?res"
    using assms(4,5) page(1) off lim by (intro getConsultaProdData_ok) simp_all
  have mem: "?x \<in> set (data ?res)" using page(3) by simp
  have tot: "total ?res = length (filter (matches pf ?w) (consultaProd d))"
    by (simp add: count_rows_def)
  have "r \<in> set (filter (matches pf ?w) (consultaProd d))" using assms(2,3) by simp
  then have "0 < length (filter (matches pf ?w) (consultaProd d))"
    by (metis length_pos_if_in_set)
  with tot have pos: "0 < total ?res" by simp
  have nulls:
    "rr_cbo ?x = None \<longleftrightarrow>
       prdCbo r = None \<or> (\<forall>c\<in>set (cbo d). prdCbo r \<noteq> Some (cbo_id c))"
    "rr_prestador ?x = None \<longleftrightarrow>
       prdPrest r = None \<or> (\<forall>q\<in>set (prestador d). prdPrest r \<noteq> Some (prest_id q))"
    "rr_procedimento ?x = None \<longleftrightarrow>
       prdProc r = None \<or> (\<forall>q\<in>set (procedimento d). prdProc r \<noteq> Some (proc_id q))"
    "rr_sRub ?x = None \<longleftrightarrow>
       prdRub r = None \<or> (\<forall>s\<in>set (sRub d). prdRub r \<noteq> Some (srub_id s))"
    by (simp_all add: select_join_one_fields lookup_by_None)
  show ?thesis
    apply (rule exI[of _ page], rule exI[of _ ?res], rule exI[of _ ?x])
    using page(1) ok mem tot pos nulls
    by (simp only: select_join_one_fields simp_thms)
qed

lemma test_db_dangling_keys: "reference_keys test_db_dangling"
  using test_db_keys by (simp add: reference_keys_def test_db_dangling_def)

theorem left_joins_keep_row_witness:
  "\<exists>page res x.
     getConsultaProdData test_platform test_db_dangling (JObj [(''prestador'', JStr ''p1'')]) page 1 =
       Inr res \<and>
     x \<in> set (data res) \<and> rr_id x = ''k9'' \<and>
     rr_cbo x = None \<and> rr_sRub x = None \<and>
     rr_prestador x =
       Some \<lparr> pr_id = ''p1'', pr_codigo = ''001'', pr_nomeRazaoSocial = ''Hospital Municipal'' \<rparr> \<and>
     total res = 3"
proof -
  let ?f = "JObj [(''prestador'', JStr ''p1'')]"
  have w: "whereCondition test_platform ?f = Some (And [EqPrest (JStr ''p1'')])"
    by (simp add: whereCondition_def whereConditions_def)
  have enc: "\<forall>c. whereCondition test_platform ?f = Some c \<longrightarrow>
               encodable c \<and> accepted test_platform c"
    by (simp add: w param_text_def pg_text_ok_def)
  have r: "test_record_dangling \<in> set (consultaProd test_db_dangling)"
    by (simp add: test_db_dangling_def)
  have m: "matches test_platform (whereCondition test_platform ?f) test_record_dangling"
    by (simp add: w matches_def param_text_def test_record_dangling_def)
  have l: "(0::int) < 1" "(1::int) \<le> MAX_SAFE_INTEGER"
    "int (length (consultaProd test_db_dangling)) \<le> MAX_SAFE_INTEGER"
    by (simp_all add: MAX_SAFE_INTEGER_def test_db_dangling_def test_db_def)
  from left_joins_keep_row[OF test_db_dangling_keys r m enc l]
  obtain page res x where *:
    "getConsultaProdData test_platform test_db_dangling ?f page 1 = Inr res"
    "x \<in> set (data res)" "rr_id x = prd_id test_record_dangling"
    "rr_cbo x = map_option cbo_fields
                  (lookup_by cbo_id (cbo test_db_dangling) (prdCbo test_record_dangling))"
    "rr_prestador x = map_option prestador_fields
                  (lookup_by prest_id (prestador test_db_dangling) (prdPrest test_record_dangling))"
    "rr_sRub x = map_option srub_fields
                  (lookup_by srub_id (sRub test_db_dangling) (prdRub test_record_dangling))"
    "total res = length (filter (matches test_platform (whereCondition test_platform ?f))
                           (consultaProd test_db_dangling))"
    by blast
  have 1: "rr_id x = ''k9''" using *(3) by (simp add: test_record_dangling_def)
  have 2: "rr_cbo x = None" using *(4) by (simp add: test_record_dangling_def lookup_by_def)
  have 3: "rr_sRub x = None"
    using *(6) by (simp add: test_record_dangling_def lookup_by_def test_db_dangling_def test_db_def)
  have 4: "rr_prestador x =
       Some \<lparr> pr_id = ''p1'', pr_codigo = ''001'', pr_nomeRazaoSocial = ''Hospital Municipal'' \<rparr>"
    using *(5)
    by (simp add: test_record_dangling_def lookup_by_def test_db_dangling_def test_db_def
        prestador_fields_def test_prestador1_def)
  have 5: "total res = 3" unfolding *(7) w
    by (simp add: matches_def param_text_def test_db_dangling_def test_db_def test_record1_def
        test_record2_def test_record3_def test_record_dangling_def)
  show ?thesis
    by (rule exI[of _ page], rule exI[of _ res], rule exI[of _ x]) (simp add: *(1,2) 1 2 3 4 5)
qed

section \<open>Failures of the report route\<close>

lemma not_encodable_whereCondition:
  assumes "(truthy (js_get f ''dateFrom'') \<and> new_Date pf (js_get f ''dateFrom'') = None) \<or>
           (truthy (js_get f ''dateTo'') \<and> new_Date pf (js_get f ''dateTo'') = None)"
  shows "\<exists>c. whereCondition pf f = Some c \<and> \<not> encodable c"
  using assms unfolding whereCondition_def Let_def whereConditions_unguarded
  by auto

lemma getConsultaProdData_invalid_date:
  assumes "(truthy (js_get f ''dateFrom'') \<and> new_Date pf (js_get f ''dateFrom'') = None) \<or>
           (truthy (js_get f ''dateTo'') \<and> new_Date pf (js_get f ''dateTo'') = None)"
  shows "getConsultaProdData pf d f page limit = Inl RangeError"
proof -
  from not_encodable_whereCondition[OF assms] obtain c where
    "whereCondition pf f = Some c" "\<not> encodable c" by blast
  then show ?thesis by (simp add: getConsultaProdData_def Let_def)
qed

lemma reports_data_handler_cases:
  "reports_data_handler pf d req =
     (case query_filters_value pf (query_filters req) of
        Inl e \<Rightarrow> internal_error
      | Inr f \<Rightarrow>
          (case getConsultaProdData pf d f (int_or pf (query_page req) 1)
                  (int_or pf (query_limit req) 50) of
             Inl e \<Rightarrow> internal_error
           | Inr result \<Rightarrow> \<lparr> status = 200, body = ReportBody result \<rparr>))"
  by (simp add: reports_data_handler_def Let_def)

lemma reports_data_handler_outcomes:
  "reports_data_handler pf d req = internal_error \<or>
   (\<exists>pg. reports_data_handler pf d req = \<lparr> status = 200, body = ReportBody pg \<rparr>)"
  unfolding reports_data_handler_cases
  by (cases "query_filters_value pf (query_filters req)";
      cases "getConsultaProdData pf d (projr (query_filters_value pf (query_filters req)))
               (int_or pf (query_page req) 1) (int_or pf (query_limit req) 50)")
     simp_all

text \<open>
  C4, as the code has it. Compiling the filter validates nothing: a malformed
  \<open>dateFrom\<close> or \<open>dateTo\<close> becomes an Invalid Date inside the condition, and
  the failure comes when the query is run. For an authenticated request GET
  /api/reports/data answers either 200 with the page or 500 with the message
  ``Internal server error'', never a validation error naming a field. A
  present, non-empty \<open>dateFrom\<close> or \<open>dateTo\<close> that is not a valid date gives
  that 500, and so does a filters parameter that is not JSON.
\<close>

theorem reports_data_failure_modes:
  assumes "authenticateToken pf req = Inr user"
  shows "(get_reports_data pf d req = \<lparr> status = 500, body = Message ''Internal server error'' \<rparr> \<or>
            (\<exists>pg. get_reports_data pf d req = \<lparr> status = 200, body = ReportBody pg \<rparr>)) \<and>
         \<not> spec_ValidationError_naming field (get_reports_data pf d req) \<and>
         (\<forall>f. query_filters_value pf (query_filters req) = Inr f \<and>
              ((truthy (js_get f ''dateFrom'') \<and> new_Date pf (js_get f ''dateFrom'') = None) \<or>
               (truthy (js_get f ''dateTo'') \<and> new_Date pf (js_get f ''dateTo'') = None))
              \<longrightarrow> get_reports_data pf d req =
                    \<lparr> status = 500, body = Message ''Internal server error'' \<rparr>) \<and>
         (\<forall>e. query_filters_value pf (query_filters req) = Inl e
              \<longrightarrow> get_reports_data pf d req =
                    \<lparr> status = 500, body = Message ''Internal server error'' \<rparr>)"
proof -
  have route: "get_reports_data pf d req = reports_data_handler pf d req"
    by (simp add: get_reports_data_def assms)
  have 1: "get_reports_data pf d req = \<lparr> status = 500, body = Message ''Internal server error'' \<rparr> \<or>
            (\<exists>pg. get_reports_data pf d req = \<lparr> status = 200, body = ReportBody pg \<rparr>)"
    using reports_data_handler_outcomes[of pf d req] by (simp add: route internal_error_def)
  have 2: "\<not> spec_ValidationError_naming field (get_reports_data pf d req)"
    using 1 by (auto simp: spec_ValidationError_naming_def)
  have 3: "\<forall>f. query_filters_value pf (query_filters req) = Inr f \<and>
              ((truthy (js_get f ''dateFrom'') \<and> new_Date pf (js_get f ''dateFrom'') = None) \<or>
               (truthy (js_get f ''dateTo'') \<and> new_Date pf (js_get f ''dateTo'') = None))
              \<longrightarrow> get_reports_data pf d req =
                    \<lparr> status = 500, body = Message ''Internal server error'' \<rparr>"
  proof (intro allI impI)
    fix f
    assume a: "query_filters_value pf (query_filters req) = Inr f \<and>
              ((truthy (js_get f ''dateFrom'') \<and> new_Date pf (js_get f ''dateFrom'') = None) \<or>
               (truthy (js_get f ''dateTo'') \<and> new_Date pf (js_get f ''dateTo'') = None))"
    then have "getConsultaProdData pf d f (int_or pf (query_page req) 1)
                 (int_or pf (query_limit req) 50) = Inl RangeError"
      by (intro getConsultaProdData_invalid_date) simp
    with a show "get_reports_data pf d req =
                    \<lparr> status = 500, body = Message ''Internal server error'' \<rparr>"
      by (simp add: route reports_data_handler_cases internal_error_def)
  qed
  have 4: "\<forall>e. query_filters_value pf (query_filters req) = Inl e
              \<longrightarrow> get_reports_data pf d req =
                    \<lparr> status = 500, body = Message ''Internal server error'' \<rparr>"
    by (simp add: route reports_data_handler_cases internal_error_def)
  from 1 2 3 4 show ?thesis by (intro conjI)
qed

lemma test_request_auth:
  "authenticateToken test_platform (test_request\<lparr> query_filters := q \<rparr>) =
     Inr \<lparr> jwt_id = ''u1'', jwt_username = ''admin'', jwt_role = ''admin'' \<rparr>"
  by (simp add: authenticateToken_def bearer_token_def test_request_def test_platform_def
      JWT_SECRET_def)

lemma garbage_filters_value:
  "query_filters_value test_platform (Some garbage_filters_query) =
     Inr (JObj [(''dateFrom'', JStr ''garbage'')])"
  by (simp add: query_filters_value_def test_platform_def garbage_filters_query_def)

lemma brace_filters_value:
  "query_filters_value test_platform (Some ''{'') = Inl SyntaxError"
  by (simp add: query_filters_value_def test_platform_def garbage_filters_query_def)

theorem reports_data_failure_modes_witness:
  "get_reports_data test_platform test_db
     (test_request\<lparr> query_filters := Some garbage_filters_query \<rparr>) =
     \<lparr> status = 500, body = Message ''Internal server error'' \<rparr> \<and>
   get_reports_data test_platform test_db (test_request\<lparr> query_filters := Some ''{'' \<rparr>) =
     \<lparr> status = 500, body = Message ''Internal server error'' \<rparr>"
proof -
  let ?req = "test_request\<lparr> query_filters := Some garbage_filters_query \<rparr>"
  let ?brace = "test_request\<lparr> query_filters := Some ''{'' \<rparr>"
  have q: "query_filters_value test_platform (query_filters ?req) =
             Inr (JObj [(''dateFrom'', JStr ''garbage'')])"
    by (simp add: garbage_filters_value)
  have bad: "truthy (js_get (JObj [(''dateFrom'', JStr ''garbage'')]) ''dateFrom'') \<and>
             new_Date test_platform (js_get (JObj [(''dateFrom'', JStr ''garbage'')]) ''dateFrom'') = None"
    by (simp add: test_platform_def)
  have b: "query_filters_value test_platform (query_filters ?brace) = Inl SyntaxError"
    by (simp add: brace_filters_value)
  note date = reports_data_failure_modes[OF test_request_auth, where d = test_db
      and field = "''dateFrom''" and q1 = "Some garbage_filters_query",
      THEN conjunct2, THEN conjunct2, THEN conjunct1]
  note json = reports_data_failure_modes[OF test_request_auth, where d = test_db
      and field = "''dateFrom''" and q1 = "Some ''{''",
      THEN conjunct2, THEN conjunct2, THEN conjunct2]
  from date q bad have 1: "get_reports_data test_platform test_db ?req =
     \<lparr> status = 500, body = Message ''Internal server error'' \<rparr>" by blast
  from json b have 2: "get_reports_data test_platform test_db ?brace =
     \<lparr> status = 500, body = Message ''Internal server error'' \<rparr>" by blast
  from 1 2 show ?thesis by (rule conjI)
qed

text \<open>
  C4 as stated fails: a request whose \<open>dateFrom\<close> is the malformed date
  ``garbage'' compiles to a condition, and the route answers 500 with
  ``Internal server error'', not a validation error naming \<open>dateFrom\<close>; and a
  malformed date is not the only failure: a filters parameter that is not JSON
  is answered the same way.
\<close>

theorem malformed_date_counterexample:
  "whereConditions test_platform (JObj [(''dateFrom'', JStr ''garbage'')]) = [GteDtcomp None] \<and>
   get_reports_data test_platform test_db
     (test_request\<lparr> query_filters := Some garbage_filters_query \<rparr>) =
     \<lparr> status = 500, body = Message ''Internal server error'' \<rparr> \<and>
   \<not> spec_ValidationError_naming ''dateFrom''
       (get_reports_data test_platform test_db
          (test_request\<lparr> query_filters := Some garbage_filters_query \<rparr>)) \<and>
   get_reports_data test_platform test_db (test_request\<lparr> query_filters := Some ''{'' \<rparr>) =
     \<lparr> status = 500, body = Message ''Internal server error'' \<rparr>"
proof -
  have c: "whereConditions test_platform (JObj [(''dateFrom'', JStr ''garbage'')]) = [GteDtcomp None]"
    by (simp add: whereConditions_def test_platform_def)
  have w: "whereCondition test_platform (JObj [(''dateFrom'', JStr ''garbage'')]) =
             Some (And [GteDtcomp None])"
    by (simp add: whereCondition_def c)
  have "getConsultaProdData test_platform test_db (JObj [(''dateFrom'', JStr ''garbage'')]) p l =
          Inl RangeError" for p l
    by (simp add: getConsultaProdData_def w)
  then have r: "get_reports_data test_platform test_db
     (test_request\<lparr> query_filters := Some garbage_filters_query \<rparr>) =
     \<lparr> status = 500, body = Message ''Internal server error'' \<rparr>"
    by (simp add: get_reports_data_def test_request_auth reports_data_handler_cases
        garbage_filters_value internal_error_def)
  have n: "\<not> spec_ValidationError_naming ''dateFrom''
       (get_reports_data test_platform test_db
          (test_request\<lparr> query_filters := Some garbage_filters_query \<rparr>))"
    unfolding r by (simp add: spec_ValidationError_naming_def)
  have j: "get_reports_data test_platform test_db (test_request\<lparr> query_filters := Some ''{'' \<rparr>) =
     \<lparr> status = 500, body = Message ''Internal server error'' \<rparr>"
    by (simp add: get_reports_data_def test_request_auth reports_data_handler_cases
        brace_filters_value internal_error_def)
  from c r n j show ?thesis by (intro conjI)
qed

section \<open>Authentication\<close>

text \<open>
  C7, as the code has it. A protected route answers 401 ``Access token
  required'' when the Authorization header is missing or carries no token after
  its first space, and 403 ``Invalid token'' when jsonwebtoken rejects the token
  (invalid or expired); a token it accepts passes its payload on. 403 is also
  the answer of the admin check to a principal whose role is not \<open>admin\<close>.
\<close>

theorem authenticateToken_statuses:
  "(bearer_token (authorization req) = None \<longrightarrow>
      authenticateToken pf req = Inl \<lparr> status = 401, body = Message ''Access token required'' \<rparr>) \<and>
   (authorization req = None \<longrightarrow> bearer_token (authorization req) = None) \<and>
   (\<forall>t. bearer_token (authorization req) = Some t \<and> jwt_verify pf t (JWT_SECRET pf) = None \<longrightarrow>
      authenticateToken pf req = Inl \<lparr> status = 403, body = Message ''Invalid token'' \<rparr>) \<and>
   (\<forall>t user. bearer_token (authorization req) = Some t \<and>
             jwt_verify pf t (JWT_SECRET pf) = Some user \<longrightarrow>
      authenticateToken pf req = Inr user) \<and>
   (jwt_role caller \<noteq> ''admin'' \<longrightarrow>
      requireAdmin caller = Some \<lparr> status = 403, body = Message ''Admin access required'' \<rparr>) \<and>
   (jwt_role caller = ''admin'' \<longrightarrow> requireAdmin caller = None)"
  by (auto simp: authenticateToken_def bearer_token_def requireAdmin_def)

theorem authenticateToken_statuses_witness:
  "authenticateToken test_platform (test_request\<lparr> authorization := None \<rparr>) =
     Inl \<lparr> status = 401, body = Message ''Access token required'' \<rparr> \<and>
   authenticateToken test_platform (test_request\<lparr> authorization := Some ''Bearer'' \<rparr>) =
     Inl \<lparr> status = 401, body = Message ''Access token required'' \<rparr> \<and>
   authenticateToken test_platform (test_request\<lparr> authorization := Some ''Bearer jwt:stale'' \<rparr>) =
     Inl \<lparr> status = 403, body = Message ''Invalid token'' \<rparr> \<and>
   authenticateToken test_platform (test_request\<lparr> authorization := Some ''Bearer jwt:maria'' \<rparr>) =
     Inr \<lparr> jwt_id = ''u2'', jwt_username = ''maria'', jwt_role = ''operator'' \<rparr> \<and>
   requireAdmin \<lparr> jwt_id = ''u2'', jwt_username = ''maria'', jwt_role = ''operator'' \<rparr> =
     Some \<lparr> status = 403, body = Message ''Admin access required'' \<rparr>"
proof -
  let ?maria = "\<lparr> jwt_id = ''u2'', jwt_username = ''maria'', jwt_role = ''operator'' \<rparr>"
  have a: "bearer_token (authorization (test_request\<lparr> authorization := None \<rparr>)) = None"
    by (simp add: bearer_token_def)
  have b: "bearer_token (authorization (test_request\<lparr> authorization := Some ''Bearer'' \<rparr>)) = None"
    by (simp add: bearer_token_def)
  have c: "bearer_token (authorization (test_request\<lparr> authorization := Some ''Bearer jwt:stale'' \<rparr>))
             = Some ''jwt:stale''"
    by (simp add: bearer_token_def)
  have c': "jwt_verify test_platform ''jwt:stale'' (JWT_SECRET test_platform) = None"
    by (simp add: test_platform_def)
  have e: "bearer_token (authorization (test_request\<lparr> authorization := Some ''Bearer jwt:maria'' \<rparr>))
             = Some ''jwt:maria''"
    by (simp add: bearer_token_def)
  have e': "jwt_verify test_platform ''jwt:maria'' (JWT_SECRET test_platform) = Some ?maria"
    by (simp add: test_platform_def)
  have r: "jwt_role ?maria \<noteq> ''admin''" by simp
  from authenticateToken_statuses[of "test_request\<lparr> authorization := None \<rparr>" test_platform ?maria] a
  have 1: "authenticateToken test_platform (test_request\<lparr> authorization := None \<rparr>) =
     Inl \<lparr> status = 401, body = Message ''Access token required'' \<rparr>" by blast
  from authenticateToken_statuses[of "test_request\<lparr> authorization := Some ''Bearer'' \<rparr>" test_platform ?maria] b
  have 2: "authenticateToken test_platform (test_request\<lparr> authorization := Some ''Bearer'' \<rparr>) =
     Inl \<lparr> status = 401, body = Message ''Access token required'' \<rparr>" by blast
  from authenticateToken_statuses[of "test_request\<lparr> authorization := Some ''Bearer jwt:stale'' \<rparr>"
      test_platform ?maria] c c'
  have 3: "authenticateToken test_platform (test_request\<lparr> authorization := Some ''Bearer jwt:stale'' \<rparr>) =
     Inl \<lparr> status = 403, body = Message ''Invalid token'' \<rparr>" by blast
  from authenticateToken_statuses[of "test_request\<lparr> authorization := Some ''Bearer jwt:maria'' \<rparr>"
      test_platform ?maria] e e' r
  have 4: "authenticateToken test_platform (test_request\<lparr> authorization := Some ''Bearer jwt:maria'' \<rparr>) =
     Inr ?maria"
    and 5: "requireAdmin ?maria = Some \<lparr> status = 403, body = Message ''Admin access required'' \<rparr>"
    by blast+
  from 1 2 3 4 5 show ?thesis by blast
qed

text \<open>
  C7 as stated fails: a request with a token that jsonwebtoken rejects is
  answered 403, not 401.
\<close>

theorem invalid_token_counterexample:
  "authenticateToken test_platform (test_request\<lparr> authorization := Some ''Bearer jwt:stale'' \<rparr>) =
     Inl \<lparr> status = 403, body = Message ''Invalid token'' \<rparr>"
  by (simp add: authenticateToken_def bearer_token_def test_platform_def)

section \<open>Login\<close>

lemma post_auth_login_parsed:
  assumes "loginSchema_parse (req_body req) = Some (username, password)"
  shows "post_auth_login pf d req =
         (case getUserByUsername d username of
             Inl e \<Rightarrow> invalid_request
           | Inr None \<Rightarrow> invalid_credentials
           | Inr (Some user) \<Rightarrow>
               if \<not> u_active user then invalid_credentials
               else if \<not> bcrypt_compare pf password (u_password user) then invalid_credentials
               else \<lparr> status = 200, body = Json (login_body pf user) \<rparr>)"
  by (simp add: post_auth_login_def assms)

lemma issued_token_simps:
  "issued_token invalid_request = None"
  "issued_token invalid_credentials = None"
  "issued_token \<lparr> status = 200, body = Json (login_body pf user) \<rparr> = Some (login_token pf user)"
  by (simp_all add: issued_token_def invalid_request_def invalid_credentials_def login_body_def)

lemma getUserByUsername_refused:
  "\<not> pg_text_ok username \<Longrightarrow> getUserByUsername d username = Inl (DbError InvalidParameter)"
  by (simp add: getUserByUsername_def)

lemma getUserByUsername_Inr:
  "getUserByUsername d username = Inr r \<Longrightarrow> pg_text_ok username"
  by (auto simp: getUserByUsername_def split: if_splits)

text \<open>
  C10, as the code has it. POST /api/auth/login answers 400 ``Invalid request
  data'' when the body does not pass \<open>loginSchema\<close> (username and password
  must be strings of at least one character) and when the database refuses the
  username (it contains U+0000). Otherwise it answers 401 with the one message
  ``Invalid credentials'' when the username is unknown, when the account is not
  active, and when the password does not match the stored hash; and when the
  account exists, is active and the password matches it answers 200 with a
  token signed over the account's id, username and role with an expiry of 24
  hours. A token is issued in that case only.
\<close>

theorem login_outcomes:
  "(loginSchema_parse (req_body req) = None \<longrightarrow>
      post_auth_login pf d req = \<lparr> status = 400, body = Message ''Invalid request data'' \<rparr>) \<and>
   (\<forall>username password.
      loginSchema_parse (req_body req) = Some (username, password) \<and> \<not> pg_text_ok username
      \<longrightarrow> post_auth_login pf d req =
            \<lparr> status = 400, body = Message ''Invalid request data'' \<rparr>) \<and>
   (\<forall>username password.
      loginSchema_parse (req_body req) = Some (username, password) \<and>
      (getUserByUsername d username = Inr None \<or>
       (\<exists>user. getUserByUsername d username = Inr (Some user) \<and>
               (\<not> u_active user \<or> \<not> bcrypt_compare pf password (u_password user))))
      \<longrightarrow> post_auth_login pf d req =
            \<lparr> status = 401, body = Message ''Invalid credentials'' \<rparr>) \<and>
   (\<forall>username password user.
      loginSchema_parse (req_body req) = Some (username, password) \<and>
      getUserByUsername d username = Inr (Some user) \<and> u_active user \<and>
      bcrypt_compare pf password (u_password user)
      \<longrightarrow> post_auth_login pf d req = \<lparr> status = 200, body = Json (login_body pf user) \<rparr> \<and>
          issued_token (post_auth_login pf d req) =
            Some (jwt_sign pf \<lparr> jwt_id = u_id user, jwt_username = u_username user,
                                jwt_role = u_role user \<rparr> (JWT_SECRET pf) ''24h'')) \<and>
   (issued_token (post_auth_login pf d req) = Some t \<longleftrightarrow>
      (\<exists>username password user.
          loginSchema_parse (req_body req) = Some (username, password) \<and>
          pg_text_ok username \<and>
          find (\<lambda>u. u_username u = username) (users d) = Some user \<and> u_active user \<and>
          bcrypt_compare pf password (u_password user) \<and>
          t = jwt_sign pf \<lparr> jwt_id = u_id user, jwt_username = u_username user,
                             jwt_role = u_role user \<rparr> (JWT_SECRET pf) ''24h''))"
proof (intro conjI allI impI)
  assume "loginSchema_parse (req_body req) = None"
  then show "post_auth_login pf d req = \<lparr> status = 400, body = Message ''Invalid request data'' \<rparr>"
    by (simp add: post_auth_login_def invalid_request_def)
next
  fix username password
  assume "loginSchema_parse (req_body req) = Some (username, password) \<and> \<not> pg_text_ok username"
  then show "post_auth_login pf d req = \<lparr> status = 400, body = Message ''Invalid request data'' \<rparr>"
    by (simp add: post_auth_login_parsed getUserByUsername_refused invalid_request_def)
next
  fix username password
  assume "loginSchema_parse (req_body req) = Some (username, password) \<and>
      (getUserByUsername d username = Inr None \<or>
       (\<exists>user. getUserByUsername d username = Inr (Some user) \<and>
               (\<not> u_active user \<or> \<not> bcrypt_compare pf password (u_password user))))"
  then show "post_auth_login pf d req = \<lparr> status = 401, body = Message ''Invalid credentials'' \<rparr>"
    by (auto simp: post_auth_login_parsed invalid_credentials_def)
next
  fix username password user
  assume a: "loginSchema_parse (req_body req) = Some (username, password) \<and>
      getUserByUsername d username = Inr (Some user) \<and> u_active user \<and>
      bcrypt_compare pf password (u_password user)"
  then show r: "post_auth_login pf d req = \<lparr> status = 200, body = Json (login_body pf user) \<rparr>"
    by (simp add: post_auth_login_parsed)
  show "issued_token (post_auth_login pf d req) =
            Some (jwt_sign pf \<lparr> jwt_id = u_id user, jwt_username = u_username user,
                                jwt_role = u_role user \<rparr> (JWT_SECRET pf) ''24h'')"
    by (simp add: r issued_token_simps login_token_def)
next
  show "issued_token (post_auth_login pf d req) = Some t \<longleftrightarrow>
      (\<exists>username password user.
          loginSchema_parse (req_body req) = Some (username, password) \<and>
          pg_text_ok username \<and>
          find (\<lambda>u. u_username u = username) (users d) = Some user \<and> u_active user \<and>
          bcrypt_compare pf password (u_password user) \<and>
          t = jwt_sign pf \<lparr> jwt_id = u_id user, jwt_username = u_username user,
                             jwt_role = u_role user \<rparr> (JWT_SECRET pf) ''24h'')"
  proof (cases "loginSchema_parse (req_body req)")
    case None
    then show ?thesis by (simp add: post_auth_login_def issued_token_simps)
  next
    case (Some up)
    obtain username password where up: "up = (username, password)" by (cases up)
    note p = Some[unfolded up]
    show ?thesis
    proof (cases "pg_text_ok username")
      case False
      then show ?thesis using p
        by (simp add: post_auth_login_parsed[OF p] getUserByUsername_refused issued_token_simps)
    next
      case True
      then have g: "getUserByUsername d username =
                      Inr (find (\<lambda>u. u_username u = username) (users d))"
        by (simp add: getUserByUsername_def)
      show ?thesis
      proof (cases "find (\<lambda>u. u_username u = username) (users d)")
        case None
        then show ?thesis using p
          by (simp add: post_auth_login_parsed[OF p] g issued_token_simps)
      next
        case (Some user)
        then show ?thesis using p True
          by (auto simp: post_auth_login_parsed[OF p] g issued_token_simps login_token_def)
      qed
    qed
  qed
qed

lemma login_request_parse:
  "username \<noteq> [] \<Longrightarrow> password \<noteq> [] \<Longrightarrow>
   loginSchema_parse (req_body (login_request username password)) = Some (username, password)"
  by (cases username; cases password) (simp_all add: login_request_def loginSchema_parse_def)

lemma login_request_empty_password:
  "loginSchema_parse (req_body (login_request username [])) = None"
  by (simp add: login_request_def loginSchema_parse_def)

lemma test_users_lookup:
  "getUserByUsername test_db ''admin'' = Inr (Some test_admin)"
  "getUserByUsername test_db ''joao'' = Inr (Some test_inactive)"
  "getUserByUsername test_db ''nobody'' = Inr None"
  by (simp_all add: getUserByUsername_def pg_text_ok_def test_db_def test_admin_def
      test_operator_def test_inactive_def)

theorem login_outcomes_witness:
  "post_auth_login test_platform test_db (login_request ''nobody'' ''x'') =
     \<lparr> status = 401, body = Message ''Invalid credentials'' \<rparr> \<and>
   post_auth_login test_platform test_db (login_request ''joao'' ''senha'') =
     \<lparr> status = 401, body = Message ''Invalid credentials'' \<rparr> \<and>
   post_auth_login test_platform test_db (login_request ''admin'' ''wrong'') =
     \<lparr> status = 401, body = Message ''Invalid credentials'' \<rparr> \<and>
   issued_token (post_auth_login test_platform test_db (login_request ''admin'' ''admin123'')) =
     Some ''jwt:admin'' \<and>
   post_auth_login test_platform test_db (login_request ''admin'' []) =
     \<lparr> status = 400, body = Message ''Invalid request data'' \<rparr> \<and>
   post_auth_login test_platform test_db (login_request [CHR ''a'', CHR 0x00] ''x'') =
     \<lparr> status = 400, body = Message ''Invalid request data'' \<rparr>"
proof -
  have p1: "loginSchema_parse (req_body (login_request ''nobody'' ''x'')) = Some (''nobody'', ''x'')"
    and p2: "loginSchema_parse (req_body (login_request ''joao'' ''senha'')) = Some (''joao'', ''senha'')"
    and p3: "loginSchema_parse (req_body (login_request ''admin'' ''wrong'')) = Some (''admin'', ''wrong'')"
    and p4: "loginSchema_parse (req_body (login_request ''admin'' ''admin123'')) =
               Some (''admin'', ''admin123'')"
    and p6: "loginSchema_parse (req_body (login_request [CHR ''a'', CHR 0x00] ''x'')) =
               Some ([CHR ''a'', CHR 0x00], ''x'')"
    by (simp_all add: login_request_parse)
  have p5: "loginSchema_parse (req_body (login_request ''admin'' [])) = None"
    by (rule login_request_empty_password)
  have nul: "\<not> pg_text_ok [CHR ''a'', CHR 0x00]" by (simp add: pg_text_ok_def)
  have i: "\<not> u_active test_inactive" by (simp add: test_inactive_def)
  have w: "\<not> bcrypt_compare test_platform ''wrong'' (u_password test_admin)"
    by (simp add: test_platform_def test_admin_def)
  have a: "u_active test_admin" "bcrypt_compare test_platform ''admin123'' (u_password test_admin)"
    by (simp_all add: test_platform_def test_admin_def)
  have tok: "jwt_sign test_platform
               \<lparr> jwt_id = u_id test_admin, jwt_username = u_username test_admin,
                 jwt_role = u_role test_admin \<rparr> (JWT_SECRET test_platform) ''24h'' = ''jwt:admin''"
    by (simp add: test_platform_def test_admin_def)
  note t1 = login_outcomes[of "login_request ''nobody'' ''x''" test_platform test_db,
      THEN conjunct2, THEN conjunct2, THEN conjunct1, rule_format, of "''nobody''" "''x''"]
  note t2 = login_outcomes[of "login_request ''joao'' ''senha''" test_platform test_db,
      THEN conjunct2, THEN conjunct2, THEN conjunct1, rule_format, of "''joao''" "''senha''"]
  note t3 = login_outcomes[of "login_request ''admin'' ''wrong''" test_platform test_db,
      THEN conjunct2, THEN conjunct2, THEN conjunct1, rule_format, of "''admin''" "''wrong''"]
  note t4 = login_outcomes[of "login_request ''admin'' ''admin123''" test_platform test_db,
      THEN conjunct2, THEN conjunct2, THEN conjunct2, THEN conjunct1, rule_format,
      of "''admin''" "''admin123''" test_admin]
  note t5 = login_outcomes[of "login_request ''admin'' []" test_platform test_db,
      THEN conjunct1, rule_format]
  note t6 = login_outcomes[of "login_request [CHR ''a'', CHR 0x00] ''x''" test_platform test_db,
      THEN conjunct2, THEN conjunct1, rule_format, of "[CHR ''a'', CHR 0x00]" "''x''"]
  have 1: "post_auth_login test_platform test_db (login_request ''nobody'' ''x'') =
     \<lparr> status = 401, body = Message ''Invalid credentials'' \<rparr>"
    using p1 test_users_lookup(3) by (intro t1) simp
  have 2: "post_auth_login test_platform test_db (login_request ''joao'' ''senha'') =
     \<lparr> status = 401, body = Message ''Invalid credentials'' \<rparr>"
    using p2 test_users_lookup(2) i by (intro t2) simp
  have 3: "post_auth_login test_platform test_db (login_request ''admin'' ''wrong'') =
     \<lparr> status = 401, body = Message ''Invalid credentials'' \<rparr>"
    using p3 test_users_lookup(1) w by (intro t3) simp
  have "issued_token (post_auth_login test_platform test_db (login_request ''admin'' ''admin123'')) =
     Some (jwt_sign test_platform
               \<lparr> jwt_id = u_id test_admin, jwt_username = u_username test_admin,
                 jwt_role = u_role test_admin \<rparr> (JWT_SECRET test_platform) ''24h'')"
    using p4 test_users_lookup(1) a by (intro t4[THEN conjunct2]) simp
  then have 4: "issued_token (post_auth_login test_platform test_db
                  (login_request ''admin'' ''admin123'')) = Some ''jwt:admin''"
    by (simp only: tok)
  have 5: "post_auth_login test_platform test_db (login_request ''admin'' []) =
     \<lparr> status = 400, body = Message ''Invalid request data'' \<rparr>"
    using p5 by (rule t5)
  have 6: "post_auth_login test_platform test_db (login_request [CHR ''a'', CHR 0x00] ''x'') =
     \<lparr> status = 400, body = Message ''Invalid request data'' \<rparr>"
    using p6 nul by (intro t6) simp
  from 1 2 3 4 5 6 show ?thesis by (intro conjI)
qed

text \<open>
  C10 as stated fails: for the existing, active account \<open>admin\<close> a wrong
  password that is the empty string is answered 400, not 401, and so is the
  unknown username made of \<open>a\<close> and U+0000.
\<close>

theorem login_400_counterexample:
  "post_auth_login test_platform test_db (login_request ''admin'' []) =
     \<lparr> status = 400, body = Message ''Invalid request data'' \<rparr> \<and>
   post_auth_login test_platform test_db (login_request [CHR ''a'', CHR 0x00] ''x'') =
     \<lparr> status = 400, body = Message ''Invalid request data'' \<rparr>"
proof -
  have 1: "post_auth_login test_platform test_db (login_request ''admin'' []) =
     \<lparr> status = 400, body = Message ''Invalid request data'' \<rparr>"
    by (simp add: post_auth_login_def login_request_empty_password invalid_request_def)
  have p: "loginSchema_parse (req_body (login_request [CHR ''a'', CHR 0x00] ''x'')) =
               Some ([CHR ''a'', CHR 0x00], ''x'')"
    by (simp add: login_request_parse)
  have 2: "post_auth_login test_platform test_db (login_request [CHR ''a'', CHR 0x00] ''x'') =
     \<lparr> status = 400, body = Message ''Invalid request data'' \<rparr>"
    by (simp add: post_auth_login_parsed[OF p] getUserByUsername_def pg_text_ok_def
        invalid_request_def)
  from 1 2 show ?thesis by (rule conjI)
qed

section \<open>Deleting a provider\<close>

lemma createAuditLog_ok:
  assumes "ia_userId a = Some uid" and "\<exists>u\<in>set (users d). u_id u = uid"
    and "\<forall>x\<in>set (auditLog d). al_id x \<noteq> gen_id g"
  shows "\<exists>row. createAuditLog d a g = Inr (d\<lparr> auditLog := auditLog d @ [row] \<rparr>, row)"
  using assms by (auto simp: createAuditLog_def Let_def list_ex_iff)

lemma deletePrestador_unreferenced:
  assumes "\<exists>q\<in>set (prestador d). prest_id q = pid"
    and "\<not> (\<exists>p\<in>set (consultaProd d). prdPrest p = Some pid)"
  shows "deletePrestador d pid =
           Inr (d\<lparr> prestador := filter (\<lambda>q. prest_id q \<noteq> pid) (prestador d) \<rparr>, True)"
proof -
  from assms(1) have "filter (\<lambda>q. prest_id q = pid) (prestador d) \<noteq> []"
    by (auto simp: filter_empty_conv)
  then have "0 < length (filter (\<lambda>q. prest_id q = pid) (prestador d))" by simp
  then show ?thesis using assms(2)
    by (simp add: deletePrestador_def Let_def list_ex_iff)
qed

lemma deletePrestador_referenced:
  assumes "\<exists>q\<in>set (prestador d). prest_id q = pid"
    and "\<exists>p\<in>set (consultaProd d). prdPrest p = Some pid"
  shows "deletePrestador d pid = Inl (DbError (ForeignKeyViolation ''consulta_prod_prd_prest''))"
proof -
  from assms(1) have "filter (\<lambda>q. prest_id q = pid) (prestador d) \<noteq> []"
    by (auto simp: filter_empty_conv)
  then have "0 < length (filter (\<lambda>q. prest_id q = pid) (prestador d))" by simp
  then show ?thesis using assms(2)
    by (simp add: deletePrestador_def Let_def list_ex_iff)
qed

lemma deletePrestador_absent:
  assumes "\<forall>q\<in>set (prestador d). prest_id q \<noteq> pid"
  shows "deletePrestador d pid = Inr (d, False)"
proof -
  from assms have f: "filter (\<lambda>q. prest_id q = pid) (prestador d) = []"
    by (auto simp: filter_empty_conv)
  from assms have g: "filter (\<lambda>q. prest_id q \<noteq> pid) (prestador d) = prestador d"
    by (auto simp: filter_id_conv)
  show ?thesis by (simp add: deletePrestador_def Let_def f g)
qed

lemma delete_prestador_steps:
  assumes "authenticateToken pf req = Inr user"
  shows "delete_prestador pf d req g =
     (case deletePrestador d (param_id req) of
        Inl e \<Rightarrow> (d, internal_error)
      | Inr (d1, success) \<Rightarrow>
          if \<not> success then (d1, prestador_not_found)
          else (case createAuditLog d1
                       \<lparr> ia_userId = Some (jwt_id user), ia_action = ''delete'',
                         ia_tableName = ''prestador'',
                         ia_recordId = Some (param_id req),
                         ia_oldValues = map_option (\<lambda>q. JObj (prestador_obj q))
                                          (getPrestador d (param_id req)),
                         ia_newValues = None \<rparr> g of
                  Inl e \<Rightarrow> (d1, internal_error)
                | Inr (d2, logged) \<Rightarrow> (d2, \<lparr> status = 204, body = NoBody \<rparr>)))"
  by (simp add: delete_prestador_def assms Let_def)

text \<open>
  C5, as the code has it. For an authenticated caller whose account exists, and
  the id of an existing provider: when no production record references the
  provider, the first delete removes the row (the storage call returns true, the
  route answers 204) and a second delete of the same id removes nothing (the
  storage call returns false, the route answers 404 ``Prestador not found'');
  when a production record references the provider, the foreign key rejects the
  delete, the row stays and the route answers 500 ``Internal server error''.
\<close>

theorem delete_prestador_twice:
  assumes "authenticateToken pf req = Inr user"
    and "\<exists>u\<in>set (users d). u_id u = jwt_id user"
    and "\<forall>a\<in>set (auditLog d). al_id a \<noteq> gen_id g"
    and "\<exists>q\<in>set (prestador d). prest_id q = param_id req"
  shows "(\<not> (\<exists>p\<in>set (consultaProd d). prdPrest p = Some (param_id req)) \<longrightarrow>
            (\<exists>d1 d2.
               deletePrestador d (param_id req) = Inr (d1, True) \<and>
               delete_prestador pf d req g = (d2, \<lparr> status = 204, body = NoBody \<rparr>) \<and>
               prestador d1 = filter (\<lambda>q. prest_id q \<noteq> param_id req) (prestador d) \<and>
               prestador d2 = prestador d1 \<and>
               (\<forall>q\<in>set (prestador d2). prest_id q \<noteq> param_id req) \<and>
               deletePrestador d2 (param_id req) = Inr (d2, False) \<and>
               (\<forall>g'. delete_prestador pf d2 req g' =
                       (d2, \<lparr> status = 404, body = Message ''Prestador not found'' \<rparr>)))) \<and>
         ((\<exists>p\<in>set (consultaProd d). prdPrest p = Some (param_id req)) \<longrightarrow>
            deletePrestador d (param_id req) =
              Inl (DbError (ForeignKeyViolation ''consulta_prod_prd_prest'')) \<and>
            delete_prestador pf d req g =
              (d, \<lparr> status = 500, body = Message ''Internal server error'' \<rparr>))"
proof (intro conjI impI)
  let ?pid = "param_id req"
  assume free: "\<not> (\<exists>p\<in>set (consultaProd d). prdPrest p = Some ?pid)"
  let ?d1 = "d\<lparr> prestador := filter (\<lambda>q. prest_id q \<noteq> ?pid) (prestador d) \<rparr>"
  let ?a = "\<lparr> ia_userId = Some (jwt_id user), ia_action = ''delete'',
              ia_tableName = ''prestador'', ia_recordId = Some ?pid,
              ia_oldValues = map_option (\<lambda>q. JObj (prestador_obj q)) (getPrestador d ?pid),
              ia_newValues = None \<rparr>"
  have del: "deletePrestador d ?pid = Inr (?d1, True)"
    by (rule deletePrestador_unreferenced[OF assms(4) free])
  have "\<exists>row. createAuditLog ?d1 ?a g = Inr (?d1\<lparr> auditLog := auditLog ?d1 @ [row] \<rparr>, row)"
    using assms(2,3) by (intro createAuditLog_ok[where uid = "jwt_id user"]) simp_all
  then obtain row where
    log: "createAuditLog ?d1 ?a g = Inr (?d1\<lparr> auditLog := auditLog ?d1 @ [row] \<rparr>, row)"
    by blast
  define d2 where "d2 = ?d1\<lparr> auditLog := auditLog ?d1 @ [row] \<rparr>"
  have route: "delete_prestador pf d req g = (d2, \<lparr> status = 204, body = NoBody \<rparr>)"
    by (simp add: delete_prestador_steps[OF assms(1)] del log d2_def)
  have same: "prestador d2 = prestador ?d1" by (simp add: d2_def)
  have gone: "\<forall>q\<in>set (prestador d2). prest_id q \<noteq> ?pid" by (simp add: d2_def)
  have again: "deletePrestador d2 ?pid = Inr (d2, False)"
    by (rule deletePrestador_absent[OF gone])
  have route2: "delete_prestador pf d2 req g' =
                  (d2, \<lparr> status = 404, body = Message ''Prestador not found'' \<rparr>)" for g'
    by (simp add: delete_prestador_steps[OF assms(1)] again prestador_not_found_def)
  show "\<exists>d1 d2.
               deletePrestador d (param_id req) = Inr (d1, True) \<and>
               delete_prestador pf d req g = (d2, \<lparr> status = 204, body = NoBody \<rparr>) \<and>
               prestador d1 = filter (\<lambda>q. prest_id q \<noteq> param_id req) (prestador d) \<and>
               prestador d2 = prestador d1 \<and>
               (\<forall>q\<in>set (prestador d2). prest_id q \<noteq> param_id req) \<and>
               deletePrestador d2 (param_id req) = Inr (d2, False) \<and>
               (\<forall>g'. delete_prestador pf d2 req g' =
                       (d2, \<lparr> status = 404, body = Message ''Prestador not found'' \<rparr>))"
  proof (intro exI conjI)
    show "deletePrestador d (param_id req) = Inr (?d1, True)" by (rule del)
    show "delete_prestador pf d req g = (d2, \<lparr> status = 204, body = NoBody \<rparr>)"
      by (rule route)
    show "prestador ?d1 = filter (\<lambda>q. prest_id q \<noteq> param_id req) (prestador d)" by simp
    show "prestador d2 = prestador ?d1" by (rule same)
    show "\<forall>q\<in>set (prestador d2). prest_id q \<noteq> param_id req" by (rule gone)
    show "deletePrestador d2 (param_id req) = Inr (d2, False)" by (rule again)
    show "\<forall>g'. delete_prestador pf d2 req g' =
                       (d2, \<lparr> status = 404, body = Message ''Prestador not found'' \<rparr>)"
      by (intro allI) (rule route2)
  qed
next
  assume used: "\<exists>p\<in>set (consultaProd d). prdPrest p = Some (param_id req)"
  show del: "deletePrestador d (param_id req) =
              Inl (DbError (ForeignKeyViolation ''consulta_prod_prd_prest''))"
    by (rule deletePrestador_referenced[OF assms(4) used])
  show "delete_prestador pf d req g =
              (d, \<lparr> status = 500, body = Message ''Internal server error'' \<rparr>)"
    by (simp add: delete_prestador_steps[OF assms(1)] del internal_error_def)
qed

lemma test_request_auth_id:
  "authenticateToken test_platform (test_request\<lparr> param_id := i \<rparr>) =
     Inr \<lparr> jwt_id = ''u1'', jwt_username = ''admin'', jwt_role = ''admin'' \<rparr>"
  by (simp add: authenticateToken_def bearer_token_def test_request_def test_platform_def
      JWT_SECRET_def)

theorem delete_prestador_twice_witness:
  "\<exists>d2. delete_prestador test_platform test_db (test_request\<lparr> param_id := ''p2'' \<rparr>)
           \<lparr> gen_id = ''a1'', gen_now = 1710000000000 \<rparr> = (d2, \<lparr> status = 204, body = NoBody \<rparr>) \<and>
         prestador d2 = [test_prestador1] \<and>
         delete_prestador test_platform d2 (test_request\<lparr> param_id := ''p2'' \<rparr>)
           \<lparr> gen_id = ''a2'', gen_now = 1710000000001 \<rparr> =
           (d2, \<lparr> status = 404, body = Message ''Prestador not found'' \<rparr>)"
proof -
  let ?req = "test_request\<lparr> param_id := ''p2'' \<rparr>"
  let ?g = "\<lparr> gen_id = ''a1'', gen_now = 1710000000000 \<rparr>"
  have acct: "\<exists>u\<in>set (users test_db).
                u_id u = jwt_id \<lparr> jwt_id = ''u1'', jwt_username = ''admin'', jwt_role = ''admin'' \<rparr>"
    by (simp add: test_db_def test_admin_def)
  have fresh: "\<forall>a\<in>set (auditLog test_db). al_id a \<noteq> gen_id ?g" by (simp add: test_db_def)
  have ex: "\<exists>q\<in>set (prestador test_db). prest_id q = param_id ?req"
    by (simp add: test_db_def test_prestador2_def)
  have free: "\<not> (\<exists>p\<in>set (consultaProd test_db). prdPrest p = Some (param_id ?req))"
    by (simp add: test_db_def test_record1_def test_record2_def test_record3_def)
  note outcome = delete_prestador_twice[OF test_request_auth_id acct fresh ex,
      THEN conjunct1, THEN mp, OF free]
  then obtain d1 d2 where *:
    "deletePrestador test_db (param_id ?req) = Inr (d1, True)"
    "delete_prestador test_platform test_db ?req ?g = (d2, \<lparr> status = 204, body = NoBody \<rparr>)"
    "prestador d1 = filter (\<lambda>q. prest_id q \<noteq> param_id ?req) (prestador test_db)"
    "prestador d2 = prestador d1"
    "\<forall>q\<in>set (prestador d2). prest_id q \<noteq> param_id ?req"
    "deletePrestador d2 (param_id ?req) = Inr (d2, False)"
    "\<forall>g'. delete_prestador test_platform d2 ?req g' =
            (d2, \<lparr> status = 404, body = Message ''Prestador not found'' \<rparr>)"
    by (elim exE conjE) (rule that; assumption)
  have p: "prestador d2 = [test_prestador1]"
    unfolding *(4) *(3) by (simp add: test_db_def test_prestador1_def test_prestador2_def)
  show ?thesis
    by (rule exI[of _ d2]) (simp add: *(2) p *(7))
qed

text \<open>
  C5 as stated fails: the provider \<open>p1\<close> exists and is referenced by production
  records; its first delete is rejected by the foreign key, the row stays and
  the route answers 500.
\<close>

theorem delete_referenced_prestador_counterexample:
  "getPrestador test_db ''p1'' = Some test_prestador1 \<and>
   deletePrestador test_db ''p1'' = Inl (DbError (ForeignKeyViolation ''consulta_prod_prd_prest'')) \<and>
   delete_prestador test_platform test_db (test_request\<lparr> param_id := ''p1'' \<rparr>)
     \<lparr> gen_id = ''a1'', gen_now = 1710000000000 \<rparr> =
     (test_db, \<lparr> status = 500, body = Message ''Internal server error'' \<rparr>)"
proof -
  have g: "getPrestador test_db ''p1'' = Some test_prestador1"
    by (simp add: getPrestador_def test_db_def test_prestador1_def)
  have del: "deletePrestador test_db ''p1'' =
               Inl (DbError (ForeignKeyViolation ''consulta_prod_prd_prest''))"
    by (simp add: deletePrestador_def test_db_def test_prestador1_def test_prestador2_def
        test_record1_def)
  have "delete_prestador test_platform test_db (test_request\<lparr> param_id := ''p1'' \<rparr>)
     \<lparr> gen_id = ''a1'', gen_now = 1710000000000 \<rparr> =
     (test_db, \<lparr> status = 500, body = Message ''Internal server error'' \<rparr>)"
    by (simp add: delete_prestador_steps[OF test_request_auth_id] del internal_error_def)
  with g del show ?thesis by simp
qed


section \<open>Creating an occupation\<close>












section \<open>Creating an account\<close>












section \<open>Stored passwords\<close>

lemma find_updated:
  "find (\<lambda>u. u_id u = uid) (map (\<lambda>u. if u_id u = uid then f u else u) xs) = Some user
   \<Longrightarrow> \<exists>u. user = f u"
  by (induction xs) (auto split: if_splits)

lemma updateUser_password_hashed:
  assumes "pw \<noteq> []" and "pu_password userData = Some pw"
    and "updateUser pf d uid userData salt now = Inr (d', Some user)"
  shows "u_password user = bcrypt_hash pf pw 10 salt"
proof -
  let ?upd = "userData\<lparr> pu_password := Some (bcrypt_hash pf pw 10 salt) \<rparr>"
  from assms have
    "find (\<lambda>u. u_id u = uid)
       (map (\<lambda>u. if u_id u = uid then set_user ?upd now u else u) (users d)) = Some user"
    by (auto simp: updateUser_def Let_def split: if_splits)
  then obtain u where "user = set_user ?upd now u"
    using find_updated by blast
  then show ?thesis by (simp add: set_user_def)
qed

text \<open>
  C9 at the input where the code departs from it. \<open>updateUser\<close> with the empty
  string as password skips the hash (\<open>if (updateData.password)\<close> is false for
  \<open>""\<close>) and still writes the key: the stored password is the empty string
  itself. \<open>createUser\<close> with the same password stores its bcrypt hash.
\<close>

theorem updateUser_empty_password_stored_clear:
  "updateUser test_platform test_db ''u2'' empty_password_update ''s9'' 1710000000000 =
     Inr (test_db\<lparr> users :=
                   [test_admin,
                    test_operator\<lparr> u_password := [], u_updatedAt := Some 1710000000000 \<rparr>,
                    test_inactive] \<rparr>,
          Some (test_operator\<lparr> u_password := [], u_updatedAt := Some 1710000000000 \<rparr>)) \<and>
   map_sum id (\<lambda>r. u_password (snd r))
     (createUser test_platform test_db empty_password_insert ''s9''
        \<lparr> gen_id = ''u4'', gen_now = 1710000000000 \<rparr>) = Inr ''$2b$10$s9''"
proof -
  have u: "updateUser test_platform test_db ''u2'' empty_password_update ''s9'' 1710000000000 =
     Inr (test_db\<lparr> users :=
                   [test_admin,
                    test_operator\<lparr> u_password := [], u_updatedAt := Some 1710000000000 \<rparr>,
                    test_inactive] \<rparr>,
          Some (test_operator\<lparr> u_password := [], u_updatedAt := Some 1710000000000 \<rparr>))"
    by (simp add: updateUser_def Let_def empty_password_update_def set_user_def user_conflict_def
        update_texts_ok_def pg_text_ok_def pg_text_opt_ok_def
        test_db_def test_admin_def test_operator_def test_inactive_def)
  have c: "map_sum id (\<lambda>r. u_password (snd r))
     (createUser test_platform test_db empty_password_insert ''s9''
        \<lparr> gen_id = ''u4'', gen_now = 1710000000000 \<rparr>) = Inr ''$2b$10$s9''"
    by (simp add: createUser_def Let_def empty_password_insert_def user_conflict_def
        user_texts_ok_def pg_text_ok_def pg_text_opt_ok_def
        test_db_def test_admin_def test_operator_def test_inactive_def test_platform_def)
  from u c show ?thesis by (rule conjI)
qed

end
